theory Spec2Isabelle
  imports Main "HOL-Library.Sublist"
begin

section \<open>Data model\<close>

text \<open>
  The controller of \<^verbatim>\<open>controllers/oauth2client_controller.go\<close> reconciles an
  \<^verbatim>\<open>OAuth2Client\<close> resource against the client registry of ORY Hydra. The Go
  structs become records. A Go \<^verbatim>\<open>*string\<close> becomes a \<open>string option\<close>
  (\<open>None\<close> is the nil pointer), a \<^verbatim>\<open>[]string\<close> a \<open>string list\<close>.
\<close>

text \<open>\<^verbatim>\<open>url.URL\<close>, restricted to the three fields the controller touches.\<close>

record url_URL =
  Scheme :: string
  Host :: string
  Path :: string

text \<open>\<^verbatim>\<open>api/v1alpha1/oauth2client_types.go\<close>\<close>

record OAuth2ClientSpec =
  GrantTypes :: "string list"
  ResponseTypes :: "string list"
  Scope :: string

record OAuth2ClientStatus =
  Secret :: "string option"
  ClientID :: "string option"

text \<open>
  \<^verbatim>\<open>OAuth2Client\<close> embeds \<^verbatim>\<open>metav1.ObjectMeta\<close>; of the metadata only the
  name and the namespace are read by the controller.
\<close>

record OAuth2Client =
  Name :: string
  Namespace :: string
  Spec :: OAuth2ClientSpec
  Status :: OAuth2ClientStatus

text \<open>
  Modelled from the spec: the declaration of the struct \<^verbatim>\<open>OAuth2ClientJSON\<close> is
  not among the source files. Its fields are those of the registry's wire format
  (\<^verbatim>\<open>client_id\<close>, \<^verbatim>\<open>client_name\<close>, \<^verbatim>\<open>client_secret\<close>, \<^verbatim>\<open>scope\<close>,
  \<^verbatim>\<open>grant_types\<close>, \<^verbatim>\<open>response_types\<close>), under the Go names that
  \<^verbatim>\<open>ToOAuth2ClientJSON\<close>, \<^verbatim>\<open>registerOAuth2Client\<close> and the tests use;
  \<^verbatim>\<open>ClientID\<close> and \<^verbatim>\<open>Secret\<close> are pointers there.
\<close>

record OAuth2ClientJSON =
  ClientID :: "string option"
  Name :: string
  Secret :: "string option"
  GrantTypes :: "string list"
  ResponseTypes :: "string list"
  Scope :: string

text \<open>\<^verbatim>\<open>apiv1.Secret\<close>: object metadata and the data map.\<close>

record apiv1_Secret =
  Name :: string
  Namespace :: string
  Data :: "string \<rightharpoonup> string"

text \<open>\<^verbatim>\<open>types.NamespacedName\<close>, the key of \<^verbatim>\<open>ctrl.Request\<close>.\<close>

record NamespacedName =
  Namespace :: string
  Name :: string

text \<open>
  \<^verbatim>\<open>http.Request\<close>. The field \<open>URL\<close> holds the text the request was made from;
  \<^verbatim>\<open>req.URL.String()\<close> is taken to give that text back. \<open>Body\<close> is the content of
  the buffer handed to \<^verbatim>\<open>http.NewRequest\<close>, \<open>None\<close> for the nil reader.
\<close>

record Request =
  Method :: string
  URL :: string
  Header :: "string \<rightharpoonup> string"
  Body :: "string option"

text \<open>
  The body of a response is kept as what \<^verbatim>\<open>json.NewDecoder(resp.Body).Decode(v)\<close>
  makes of its bytes when \<open>v\<close> points to a nil \<^verbatim>\<open>*OAuth2ClientJSON\<close>: the decoder
  fails with a message (\<^verbatim>\<open>EOF\<close> on an empty body, a syntax or type error
  otherwise), or the bytes are the JSON value \<^verbatim>\<open>null\<close> and the pointer stays nil,
  or they are an object and the pointer is set to the decoded struct.
\<close>

datatype body =
    Undecodable string
  | JsonNull
  | JsonObject OAuth2ClientJSON

record Response =
  StatusCode :: int
  Status :: string
  Body :: body

subsection \<open>Errors\<close>

text \<open>
  Every Go \<^verbatim>\<open>error\<close> value the controller can return, by origin. A nil pointer
  dereference is a run-time panic; it is kept as a value of its own.
\<close>

datatype error =
    NotFound string
  | ApiError string
  | TransportError string
  | EncodeError string
  | DecodeError string
  | RequestError string
  | Errorf string
  | NilPointerPanic

text \<open>\<^verbatim>\<open>err.Error()\<close>\<close>

fun Error :: "error \<Rightarrow> string" where
  "Error (NotFound m) = m"
| "Error (ApiError m) = m"
| "Error (TransportError m) = m"
| "Error (EncodeError m) = m"
| "Error (DecodeError m) = m"
| "Error (RequestError m) = m"
| "Error (Errorf m) = m"
| "Error NilPointerPanic = ''runtime error: invalid memory address or nil pointer dereference''"

text \<open>\<^verbatim>\<open>apierrs.IsNotFound\<close>\<close>

fun IsNotFound :: "error \<Rightarrow> bool" where
  "IsNotFound (NotFound m) = True"
| "IsNotFound e = False"

subsection \<open>Collaborators and state\<close>

text \<open>
  Every call that leaves the process is recorded, in order: the load of the resource,
  each HTTP exchange, each creation of a secret and each update of the status
  subresource.
\<close>

datatype event =
    Get NamespacedName
  | Do Request
  | Create apiv1_Secret
  | StatusUpdate OAuth2Client

text \<open>
  The collaborators of \<^verbatim>\<open>OAuth2ClientReconciler\<close> are interfaces whose behaviour
  the controller does not decide: the embedded \<^verbatim>\<open>client.Client\<close> (the resource
  store), \<^verbatim>\<open>HTTPClient\<close> (the registry behind it), and the two library calls that
  can fail, \<^verbatim>\<open>json.Encoder.Encode\<close> and \<^verbatim>\<open>http.NewRequest\<close>. Each is a
  function; those of the store and of the registry also see the calls made so far, so
  that any stateful store or registry is covered.
  \<open>http_NewRequest\<close> takes the method and the URL text and answers with the error of
  \<^verbatim>\<open>http.NewRequest\<close>, if any.
\<close>

record env =
  Client_Get :: "event list \<Rightarrow> NamespacedName \<Rightarrow> error + OAuth2Client"
  Client_Create :: "event list \<Rightarrow> apiv1_Secret \<Rightarrow> error option"
  Client_Status_Update :: "event list \<Rightarrow> OAuth2Client \<Rightarrow> error option"
  HTTPClient_Do :: "event list \<Rightarrow> Request \<Rightarrow> error + Response"
  json_Encode :: "OAuth2ClientJSON \<Rightarrow> error + string"
  http_NewRequest :: "string \<Rightarrow> string \<Rightarrow> error option"

text \<open>
  What changes while the controller runs: the URL that the field \<^verbatim>\<open>HydraURL\<close>
  points to, and the calls made so far.
\<close>

record state =
  HydraURL :: url_URL
  trace :: "event list"

section \<open>Library functions\<close>

subsection \<open>\<^verbatim>\<open>path.Join\<close>\<close>

text \<open>
  \<^verbatim>\<open>path.Clean\<close> of the Go standard library, on the elements of the path: empty
  elements and \<^verbatim>\<open>.\<close> are dropped, \<^verbatim>\<open>..\<close> removes the element before it when
  there is one to remove, is dropped at the root, and is kept at the start of a
  relative path. The empty result is \<^verbatim>\<open>.\<close>.
\<close>

fun split_slash :: "string \<Rightarrow> string list" where
  "split_slash [] = [[]]"
| "split_slash (c # cs) =
     (if c = CHR ''/'' then [] # split_slash cs
      else (case split_slash cs of
              [] \<Rightarrow> [[c]]
            | x # xs \<Rightarrow> (c # x) # xs))"

fun join_slash :: "string list \<Rightarrow> string" where
  "join_slash [] = []"
| "join_slash [x] = x"
| "join_slash (x # y # ys) = x @ ''/'' @ join_slash (y # ys)"

fun clean_elems :: "bool \<Rightarrow> string list \<Rightarrow> string list \<Rightarrow> string list" where
  "clean_elems rooted out [] = out"
| "clean_elems rooted out (x # xs) =
     (if x = [] \<or> x = ''.'' then clean_elems rooted out xs
      else if x = ''..'' then
        (if out \<noteq> [] \<and> last out \<noteq> ''..'' then clean_elems rooted (butlast out) xs
         else if \<not> rooted then clean_elems rooted (out @ [''..'']) xs
         else clean_elems rooted out xs)
      else clean_elems rooted (out @ [x]) xs)"

definition path_Clean :: "string \<Rightarrow> string" where
  "path_Clean p =
     (case p of
        [] \<Rightarrow> ''.''
      | c # cs \<Rightarrow>
          (let rooted = (c = CHR ''/'');
               s = (if rooted then ''/'' else []) @ join_slash (clean_elems rooted [] (split_slash p))
           in if s = [] then ''.'' else s))"

text \<open>\<^verbatim>\<open>path.Join\<close> of two elements: empty elements are ignored, the rest is cleaned.\<close>

definition path_Join :: "string \<Rightarrow> string \<Rightarrow> string" where
  "path_Join a b =
     (if a = [] \<and> b = [] then []
      else if a = [] then path_Clean b
      else path_Clean (a @ ''/'' @ b))"

subsection \<open>\<^verbatim>\<open>url.URL.String\<close>\<close>

text \<open>
  For a URL without opaque part, user, query and fragment, whose path needs no
  escaping: the scheme and a colon, two slashes and the host, a slash when a host is
  followed by a relative path, and the path.
\<close>

definition url_String :: "url_URL \<Rightarrow> string" where
  "url_String u =
     (if Scheme u = [] then [] else Scheme u @ '':'')
     @ (if Scheme u \<noteq> [] \<or> Host u \<noteq> []
        then (if Host u \<noteq> [] \<or> Path u \<noteq> [] then ''//'' else []) @ Host u
        else [])
     @ (if Path u \<noteq> [] \<and> hd (Path u) \<noteq> CHR ''/'' \<and> Host u \<noteq> [] then ''/'' else [])
     @ Path u"

subsection \<open>\<^verbatim>\<open>json.Decoder.Decode\<close>\<close>

text \<open>Decoding into a pointer to a nil \<^verbatim>\<open>*OAuth2ClientJSON\<close>: the error, or the pointer after.\<close>

fun json_Decode :: "body \<Rightarrow> error + OAuth2ClientJSON option" where
  "json_Decode (Undecodable m) = Inl (DecodeError m)"
| "json_Decode JsonNull = Inr None"
| "json_Decode (JsonObject j) = Inr (Some j)"

section \<open>The controller\<close>

text \<open>\<^verbatim>\<open>ToOAuth2ClientJSON\<close> (\<^verbatim>\<open>api/v1alpha1/oauth2client_types.go\<close>): the unset pointers are nil.\<close>

definition ToOAuth2ClientJSON :: "OAuth2Client \<Rightarrow> OAuth2ClientJSON" where
  "ToOAuth2ClientJSON c =
     \<lparr> OAuth2ClientJSON.ClientID = None,
       OAuth2ClientJSON.Name = OAuth2Client.Name c,
       OAuth2ClientJSON.Secret = None,
       OAuth2ClientJSON.GrantTypes = OAuth2ClientSpec.GrantTypes (Spec c),
       OAuth2ClientJSON.ResponseTypes = OAuth2ClientSpec.ResponseTypes (Spec c),
       OAuth2ClientJSON.Scope = OAuth2ClientSpec.Scope (Spec c) \<rparr>"

text \<open>
  \<^verbatim>\<open>newRequest\<close>: encodes the body if there is one, then assigns the joined path to
  \<^verbatim>\<open>r.HydraURL.Path\<close>, then makes the request from the text of that URL and sets the
  headers. \<^verbatim>\<open>http.NewRequest\<close> replaces the empty method by \<^verbatim>\<open>GET\<close> and
  returns a request with an empty header.
\<close>

definition newRequest ::
  "env \<Rightarrow> state \<Rightarrow> string \<Rightarrow> string \<Rightarrow> OAuth2ClientJSON option \<Rightarrow> (error + Request) \<times> state" where
  "newRequest e st method relativePath body =
     (case (case body of
              None \<Rightarrow> Inr None
            | Some b \<Rightarrow> (case json_Encode e b of Inl err \<Rightarrow> Inl err | Inr s \<Rightarrow> Inr (Some s))) of
        Inl err \<Rightarrow> (Inl err, st)
      | Inr buf \<Rightarrow>
          (let u = (HydraURL st)\<lparr>Path := path_Join (Path (HydraURL st)) relativePath\<rparr>;
               st1 = st\<lparr>HydraURL := u\<rparr>
           in case http_NewRequest e method (url_String u) of
                Some err \<Rightarrow> (Inl err, st1)
              | None \<Rightarrow>
                  (let h0 = Map.empty;
                       h1 = (if body \<noteq> None then h0(''Content-Type'' \<mapsto> ''application/json'') else h0);
                       h2 = h1(''Accept'' \<mapsto> ''application/json'')
                   in (Inr \<lparr> Method = (if method = [] then ''GET'' else method),
                             URL = url_String u,
                             Header = h2,
                             Request.Body = buf \<rparr>, st1))))"

text \<open>
  \<^verbatim>\<open>do\<close>: sends the request and decodes the body of whatever response arrives,
  before any caller looks at the status code. The result is the response, the error and
  the value left in the caller's \<^verbatim>\<open>jsonClient\<close>.
\<close>

definition do ::
  "env \<Rightarrow> state \<Rightarrow> Request \<Rightarrow> (Response option \<times> error option \<times> OAuth2ClientJSON option) \<times> state" where
  "do e st req =
     (let st1 = st\<lparr>trace := trace st @ [Do req]\<rparr>
      in case HTTPClient_Do e (trace st) req of
           Inl err \<Rightarrow> ((None, Some err, None), st1)
         | Inr resp \<Rightarrow>
             (case json_Decode (Response.Body resp) of
                Inl err \<Rightarrow> ((Some resp, Some err, None), st1)
              | Inr v \<Rightarrow> ((Some resp, None, v), st1)))"

text \<open>\<^verbatim>\<open>getOAuth2Client\<close>: the record, whether it was found, and the error.\<close>

definition getOAuth2Client ::
  "env \<Rightarrow> state \<Rightarrow> string \<Rightarrow> (OAuth2ClientJSON option \<times> bool \<times> error option) \<times> state" where
  "getOAuth2Client e st ident =
     (case newRequest e st ''GET'' ident None of
        (Inl err, st1) \<Rightarrow> ((None, False, Some err), st1)
      | (Inr req, st1) \<Rightarrow>
          (case do e st1 req of
             ((resp, Some err, jsonClient), st2) \<Rightarrow> ((None, False, Some err), st2)
           | ((None, None, jsonClient), st2) \<Rightarrow> ((None, False, Some NilPointerPanic), st2)
           | ((Some resp, None, jsonClient), st2) \<Rightarrow>
               (if StatusCode resp = 200 then ((jsonClient, True, None), st2)
                else if StatusCode resp = 404 then ((None, False, None), st2)
                else ((None, False,
                       Some (Errorf (Method req @ '' '' @ URL req
                                     @ '' http request returned unexpected status code ''
                                     @ Response.Status resp))), st2))))"

text \<open>\<^verbatim>\<open>postOAuth2Client\<close>: the created record and the error.\<close>

definition postOAuth2Client ::
  "env \<Rightarrow> state \<Rightarrow> OAuth2ClientJSON \<Rightarrow> (OAuth2ClientJSON option \<times> error option) \<times> state" where
  "postOAuth2Client e st c =
     (case newRequest e st ''POST'' [] (Some c) of
        (Inl err, st1) \<Rightarrow> ((None, Some err), st1)
      | (Inr req, st1) \<Rightarrow>
          (case do e st1 req of
             ((resp, Some err, jsonClient), st2) \<Rightarrow> ((None, Some err), st2)
           | ((None, None, jsonClient), st2) \<Rightarrow> ((None, Some NilPointerPanic), st2)
           | ((Some resp, None, jsonClient), st2) \<Rightarrow>
               (if StatusCode resp = 201 then ((jsonClient, None), st2)
                else if StatusCode resp = 409 then
                  ((None, Some (Errorf ('' '' @ Method req @ '' '' @ URL req
                                        @ '' http request failed: requested ID already exists''))), st2)
                else ((None,
                       Some (Errorf (Method req @ '' '' @ URL req
                                     @ '' http request returned unexpected status code: ''
                                     @ Response.Status resp))), st2))))"

text \<open>
  \<^verbatim>\<open>registerOAuth2Client\<close>: the error and the resource object behind the pointer
  \<^verbatim>\<open>client\<close> as the call leaves it. \<^verbatim>\<open>*created.Secret\<close> dereferences two pointers;
  either may be nil.
\<close>

definition registerOAuth2Client ::
  "env \<Rightarrow> state \<Rightarrow> OAuth2Client \<Rightarrow> (error option \<times> OAuth2Client) \<times> state" where
  "registerOAuth2Client e st client =
     (case postOAuth2Client e st (ToOAuth2ClientJSON client) of
        ((created, Some err), st1) \<Rightarrow> ((Some err, client), st1)
      | ((None, None), st1) \<Rightarrow> ((Some NilPointerPanic, client), st1)
      | ((Some cr, None), st1) \<Rightarrow>
          (case OAuth2ClientJSON.Secret cr of
             None \<Rightarrow> ((Some NilPointerPanic, client), st1)
           | Some sec \<Rightarrow>
               (let clientSecret =
                      \<lparr> apiv1_Secret.Name = OAuth2Client.Name client,
                        apiv1_Secret.Namespace = OAuth2Client.Namespace client,
                        Data = [''client_secret'' \<mapsto> sec] \<rparr>;
                    st2 = st1\<lparr>trace := trace st1 @ [Create clientSecret]\<rparr>
                in case Client_Create e (trace st1) clientSecret of
                     Some err \<Rightarrow> ((Some err, client), st2)
                   | None \<Rightarrow>
                       (let client1 = client\<lparr>OAuth2Client.Status :=
                              (OAuth2Client.Status client)\<lparr>OAuth2ClientStatus.Secret :=
                                 Some (apiv1_Secret.Name clientSecret)\<rparr>\<rparr>;
                            client2 = client1\<lparr>OAuth2Client.Status :=
                              (OAuth2Client.Status client1)\<lparr>OAuth2ClientStatus.ClientID :=
                                 OAuth2ClientJSON.ClientID cr\<rparr>\<rparr>;
                            st3 = st2\<lparr>trace := trace st2 @ [StatusUpdate client2]\<rparr>
                        in ((Client_Status_Update e (trace st2) client2, client2), st3)))))"

text \<open>
  \<^verbatim>\<open>Reconcile\<close>: the returned error (\<open>None\<close> is success; the \<^verbatim>\<open>ctrl.Result\<close>
  is empty on every path) and the state after.
\<close>

definition Reconcile :: "env \<Rightarrow> state \<Rightarrow> NamespacedName \<Rightarrow> error option \<times> state" where
  "Reconcile e st req =
     (let st0 = st\<lparr>trace := trace st @ [Get req]\<rparr>
      in case Client_Get e (trace st) req of
           Inl err \<Rightarrow> (if IsNotFound err then (None, st0) else (Some err, st0))
         | Inr client \<Rightarrow>
             (let (registered, err, st1) =
                    (case OAuth2ClientStatus.ClientID (OAuth2Client.Status client) of
                       None \<Rightarrow> (False, None, st0)
                     | Some ident \<Rightarrow>
                         (case getOAuth2Client e st0 ident of
                            ((jsonClient, found, err), st1) \<Rightarrow> (found, err, st1)))
              in if OAuth2ClientStatus.ClientID (OAuth2Client.Status client) \<noteq> None \<and> err \<noteq> None
                 then (err, st1)
                 else if \<not> registered
                 then (case registerOAuth2Client e st1 client of ((err2, client2), st2) \<Rightarrow> (err2, st2))
                 else (None, st1)))"

section \<open>Observations on a trace\<close>

text \<open>A call of the registry's Create operation is an HTTP exchange with method POST.\<close>

fun is_Create_call :: "event \<Rightarrow> bool" where
  "is_Create_call (Do req) = (Method req = ''POST'')"
| "is_Create_call ev = False"

fun is_registry_call :: "event \<Rightarrow> bool" where
  "is_registry_call (Do req) = True"
| "is_registry_call ev = False"

fun is_secret_creation :: "event \<Rightarrow> bool" where
  "is_secret_creation (Create s) = True"
| "is_secret_creation ev = False"

fun is_status_update :: "event \<Rightarrow> bool" where
  "is_status_update (StatusUpdate c) = True"
| "is_status_update ev = False"

section \<open>Repeated invocation\<close>


section \<open>A concrete store and registry\<close>

text \<open>
  The scenario of the specification: the resource \<^verbatim>\<open>demo\<close> with one grant type and
  the scope \<^verbatim>\<open>read write\<close>, a registry at \<^verbatim>\<open>http://hydra/clients\<close> that answers
  a creation with the identifier \<^verbatim>\<open>abc123\<close> and the secret \<^verbatim>\<open>s3cr3t\<close>.
\<close>

definition demo_client :: OAuth2Client where
  "demo_client =
     \<lparr> OAuth2Client.Name = ''demo'',
       OAuth2Client.Namespace = ''default'',
       Spec = \<lparr> OAuth2ClientSpec.GrantTypes = [''client_credentials''],
                OAuth2ClientSpec.ResponseTypes = [],
                OAuth2ClientSpec.Scope = ''read write'' \<rparr>,
       OAuth2Client.Status = \<lparr> OAuth2ClientStatus.Secret = None, OAuth2ClientStatus.ClientID = None \<rparr> \<rparr>"

text \<open>The same resource after an earlier registration under the identifier \<^verbatim>\<open>old-id\<close>.\<close>

definition registered_client :: OAuth2Client where
  "registered_client =
     demo_client\<lparr>OAuth2Client.Status :=
       \<lparr> OAuth2ClientStatus.Secret = Some ''demo'', OAuth2ClientStatus.ClientID = Some ''old-id'' \<rparr>\<rparr>"

definition demo_key :: NamespacedName where
  "demo_key = \<lparr> NamespacedName.Namespace = ''default'', NamespacedName.Name = ''demo'' \<rparr>"

definition gone_key :: NamespacedName where
  "gone_key = \<lparr> NamespacedName.Namespace = ''default'', NamespacedName.Name = ''gone'' \<rparr>"

definition base_state :: state where
  "base_state = \<lparr> HydraURL = \<lparr> Scheme = ''http'', Host = ''hydra'', Path = ''/clients'' \<rparr>, trace = [] \<rparr>"

text \<open>What the JSON object \<^verbatim>\<open>{}\<close> decodes to.\<close>

definition empty_record :: OAuth2ClientJSON where
  "empty_record =
     \<lparr> OAuth2ClientJSON.ClientID = None, OAuth2ClientJSON.Name = [],
       OAuth2ClientJSON.Secret = None, OAuth2ClientJSON.GrantTypes = [],
       OAuth2ClientJSON.ResponseTypes = [], OAuth2ClientJSON.Scope = [] \<rparr>"

text \<open>What \<^verbatim>\<open>{"client_id":"abc123","client_secret":"s3cr3t"}\<close> decodes to.\<close>

definition created_record :: OAuth2ClientJSON where
  "created_record =
     empty_record\<lparr>OAuth2ClientJSON.ClientID := Some ''abc123'',
                  OAuth2ClientJSON.Secret := Some ''s3cr3t''\<rparr>"

definition response :: "int \<Rightarrow> string \<Rightarrow> body \<Rightarrow> Response" where
  "response code text b = \<lparr> StatusCode = code, Response.Status = text, Response.Body = b \<rparr>"

text \<open>
  Modelled from the spec: the JSON tags of \<^verbatim>\<open>OAuth2ClientJSON\<close> are not among the
  source files. This encoder writes the fields of the wire format and leaves out the
  optional ones that are unset, as the scenario of the specification shows the body of
  the creation request. It does not escape; it is applied to plain identifiers only.
\<close>

definition quoted :: "string \<Rightarrow> string" where
  "quoted s = [CHR 0x22] @ s @ [CHR 0x22]"

fun join_comma :: "string list \<Rightarrow> string" where
  "join_comma [] = []"
| "join_comma [x] = x"
| "join_comma (x # y # ys) = x @ '','' @ join_comma (y # ys)"

definition encode_JSON :: "OAuth2ClientJSON \<Rightarrow> string" where
  "encode_JSON j =
     ''{''
     @ (case OAuth2ClientJSON.ClientID j of
          None \<Rightarrow> []
        | Some i \<Rightarrow> quoted ''client_id'' @ '':'' @ quoted i @ '','')
     @ quoted ''client_name'' @ '':'' @ quoted (OAuth2ClientJSON.Name j) @ '',''
     @ (case OAuth2ClientJSON.Secret j of
          None \<Rightarrow> []
        | Some s \<Rightarrow> quoted ''client_secret'' @ '':'' @ quoted s @ '','')
     @ quoted ''grant_types'' @ '':['' @ join_comma (map quoted (OAuth2ClientJSON.GrantTypes j)) @ ''],''
     @ (if OAuth2ClientJSON.ResponseTypes j = [] then []
        else quoted ''response_types'' @ '':[''
             @ join_comma (map quoted (OAuth2ClientJSON.ResponseTypes j)) @ ''],'')
     @ quoted ''scope'' @ '':'' @ quoted (OAuth2ClientJSON.Scope j)
     @ ''}'' @ [CHR 0x0A]"

text \<open>
  A store that holds the one resource \<open>c\<close> and answers the creation of a secret with
  \<open>create_err\<close>, and a registry that answers every POST with \<open>post_resp\<close> and every
  other request with \<open>get_resp\<close>.
\<close>

definition fixture_env :: "OAuth2Client \<Rightarrow> Response \<Rightarrow> Response \<Rightarrow> error option \<Rightarrow> env" where
  "fixture_env c get_resp post_resp create_err =
     \<lparr> Client_Get = (\<lambda>tr k.
         if NamespacedName.Namespace k = OAuth2Client.Namespace c
            \<and> NamespacedName.Name k = OAuth2Client.Name c
         then Inr c else Inl (NotFound ''oauth2clients.hydra.ory.sh not found'')),
       Client_Create = (\<lambda>tr s. create_err),
       Client_Status_Update = (\<lambda>tr c. None),
       HTTPClient_Do = (\<lambda>tr req. Inr (if Method req = ''POST'' then post_resp else get_resp)),
       json_Encode = (\<lambda>j. Inr (encode_JSON j)),
       http_NewRequest = (\<lambda>m u. None) \<rparr>"

text \<open>The registry accepts creation; it knows no client yet.\<close>

definition accepting_env :: env where
  "accepting_env =
     fixture_env demo_client
       (response 404 ''404 Not Found'' (JsonObject empty_record))
       (response 201 ''201 Created'' (JsonObject created_record))
       None"

text \<open>The registry answers not-found and conflict without a body.\<close>

definition bodyless_env :: env where
  "bodyless_env =
     fixture_env demo_client
       (response 404 ''404 Not Found'' (Undecodable ''EOF''))
       (response 409 ''409 Conflict'' (Undecodable ''EOF''))
       None"

text \<open>The registry answers a creation with a conflict and the body \<^verbatim>\<open>{}\<close>.\<close>

definition conflict_env :: env where
  "conflict_env =
     fixture_env demo_client
       (response 404 ''404 Not Found'' (JsonObject empty_record))
       (response 409 ''409 Conflict'' (JsonObject empty_record))
       None"

text \<open>The registry accepts creation; the store refuses the secret.\<close>

definition failing_store_env :: env where
  "failing_store_env =
     fixture_env demo_client
       (response 404 ''404 Not Found'' (JsonObject empty_record))
       (response 201 ''201 Created'' (JsonObject created_record))
       (Some (ApiError ''secrets demo already exists''))"


text \<open>The resource is registered and the registry has lost its record.\<close>

definition lost_env :: env where
  "lost_env =
     fixture_env registered_client
       (response 404 ''404 Not Found'' (JsonObject empty_record))
       (response 201 ''201 Created'' (JsonObject created_record))
       None"

section \<open>Deleted resources\<close>

text \<open>
  C6. When the resource store answers the load with a not-found error, \<open>Reconcile\<close>
  returns success; the load is the only call it makes (no registry call, no secret, no
  status update), and the base URL is left as it was.
\<close>

theorem C6_deleted_resource_noop:
  assumes "Client_Get e (trace st) req = Inl err" and "IsNotFound err"
  shows "Reconcile e st req = (None, st\<lparr>trace := trace st @ [Get req]\<rparr>)
       \<and> filter is_registry_call (trace (snd (Reconcile e st req))) = filter is_registry_call (trace st)
       \<and> filter is_secret_creation (trace (snd (Reconcile e st req))) = filter is_secret_creation (trace st)
       \<and> filter is_status_update (trace (snd (Reconcile e st req))) = filter is_status_update (trace st)"
  using assms by (simp add: Reconcile_def Let_def)

theorem C6_deleted_resource_noop_witness:
  "Client_Get accepting_env (trace base_state) gone_key = Inl (NotFound ''oauth2clients.hydra.ory.sh not found'')
   \<and> IsNotFound (NotFound ''oauth2clients.hydra.ory.sh not found'')
   \<and> Reconcile accepting_env base_state gone_key = (None, base_state\<lparr>trace := [Get gone_key]\<rparr>)"
  using C6_deleted_resource_noop
          [of accepting_env base_state gone_key "NotFound ''oauth2clients.hydra.ory.sh not found''"]
  by (simp add: accepting_env_def fixture_env_def demo_client_def gone_key_def base_state_def)

section \<open>Building requests\<close>

lemma newRequest_trace: "trace (snd (newRequest e st m p b)) = trace st"
  by (simp add: newRequest_def Let_def split: option.splits sum.splits)

lemma newRequest_Inr:
  assumes "newRequest e st m p b = (Inr req, st1)"
  shows "st1 = st\<lparr>HydraURL := (HydraURL st)\<lparr>Path := path_Join (Path (HydraURL st)) p\<rparr>\<rparr>"
    and "Method req = (if m = [] then ''GET'' else m)"
    and "URL req = url_String (HydraURL st1)"
    and "Header req = (if b \<noteq> None then [''Content-Type'' \<mapsto> ''application/json''] else Map.empty)
                        (''Accept'' \<mapsto> ''application/json'')"
    and "b = None \<Longrightarrow> Request.Body req = None"
    and "b = Some c \<Longrightarrow> json_Encode e c = Inr (the (Request.Body req)) \<and> Request.Body req \<noteq> None"
  using assms
  by (auto simp add: newRequest_def Let_def split: option.splits sum.splits)

lemma do_state: "snd (do e st req) = st\<lparr>trace := trace st @ [Do req]\<rparr>"
  by (simp add: do_def Let_def split: sum.splits)

lemma getOAuth2Client_trace:
  "trace (snd (getOAuth2Client e st ident)) = trace st
   \<or> (\<exists>req st1. newRequest e st ''GET'' ident None = (Inr req, st1)
                \<and> snd (getOAuth2Client e st ident) = st1\<lparr>trace := trace st @ [Do req]\<rparr>)"
proof (cases "newRequest e st ''GET'' ident None")
  case (Pair r st1)
  have tr: "trace st1 = trace st"
    using newRequest_trace[of e st "''GET''" ident None] Pair by simp
  show ?thesis
  proof (cases r)
    case (Inl err)
    with Pair tr show ?thesis by (simp add: getOAuth2Client_def)
  next
    case (Inr req)
    have "snd (getOAuth2Client e st ident) = snd (do e st1 req)"
      using Pair Inr
      by (simp add: getOAuth2Client_def split: prod.splits option.splits)
    with Pair Inr tr show ?thesis by (simp add: do_state)
  qed
qed

lemma postOAuth2Client_trace:
  "trace (snd (postOAuth2Client e st c)) = trace st
   \<or> (\<exists>req st1. newRequest e st ''POST'' [] (Some c) = (Inr req, st1)
                \<and> snd (postOAuth2Client e st c) = st1\<lparr>trace := trace st @ [Do req]\<rparr>)"
proof (cases "newRequest e st ''POST'' [] (Some c)")
  case (Pair r st1)
  have tr: "trace st1 = trace st"
    using newRequest_trace[of e st "''POST''" "[]" "Some c"] Pair by simp
  show ?thesis
  proof (cases r)
    case (Inl err)
    with Pair tr show ?thesis by (simp add: postOAuth2Client_def)
  next
    case (Inr req)
    have "snd (postOAuth2Client e st c) = snd (do e st1 req)"
      using Pair Inr
      by (simp add: postOAuth2Client_def split: prod.splits option.splits)
    with Pair Inr tr show ?thesis by (simp add: do_state)
  qed
qed

lemma newRequest_headers:
  assumes "newRequest e st method relativePath b = (Inr req, st1)"
  shows "Header req ''Accept'' = Some ''application/json''
       \<and> (b \<noteq> None \<longrightarrow> Header req ''Content-Type'' = Some ''application/json'')
       \<and> (b = None \<longrightarrow> Header req ''Content-Type'' = None \<and> Request.Body req = None)
       \<and> (\<forall>c. b = Some c \<longrightarrow> (\<exists>s. json_Encode e c = Inr s \<and> Request.Body req = Some s))"
proof -
  have hdr: "Header req = (if b \<noteq> None then [''Content-Type'' \<mapsto> ''application/json''] else Map.empty)
                        (''Accept'' \<mapsto> ''application/json'')"
    using newRequest_Inr(4)[OF assms] .
  have 1: "Header req ''Accept'' = Some ''application/json''"
    by (simp add: hdr)
  have 2: "b \<noteq> None \<longrightarrow> Header req ''Content-Type'' = Some ''application/json''"
    by (simp add: hdr)
  have 3: "b = None \<longrightarrow> Header req ''Content-Type'' = None \<and> Request.Body req = None"
    using newRequest_Inr(5)[OF assms] by (simp add: hdr)
  have 4: "\<forall>c. b = Some c \<longrightarrow> (\<exists>s. json_Encode e c = Inr s \<and> Request.Body req = Some s)"
    using newRequest_Inr(6)[OF assms] by auto
  from 1 2 3 4 show ?thesis by blast
qed

lemma lookup_request:
  assumes "trace (snd (getOAuth2Client e st ident)) = trace st @ [Do req]"
  shows "Method req = ''GET'' \<and> Header req ''Accept'' = Some ''application/json''
       \<and> Header req ''Content-Type'' = None \<and> Request.Body req = None"
proof -
  from getOAuth2Client_trace[of e st ident] assms
  obtain r st1 where nr: "newRequest e st ''GET'' ident None = (Inr r, st1)"
    and sn: "snd (getOAuth2Client e st ident) = st1\<lparr>trace := trace st @ [Do r]\<rparr>"
    by auto
  from sn assms have "r = req" by simp
  with nr have nr': "newRequest e st ''GET'' ident None = (Inr req, st1)" by simp
  from newRequest_headers[OF nr'] newRequest_Inr(2)[OF nr'] show ?thesis by simp
qed

lemma create_request:
  assumes "trace (snd (postOAuth2Client e st c)) = trace st @ [Do req]"
  shows "Method req = ''POST'' \<and> Header req ''Accept'' = Some ''application/json''
       \<and> Header req ''Content-Type'' = Some ''application/json''
       \<and> (\<exists>s. json_Encode e c = Inr s \<and> Request.Body req = Some s)"
proof -
  from postOAuth2Client_trace[of e st c] assms
  obtain r st1 where nr: "newRequest e st ''POST'' [] (Some c) = (Inr r, st1)"
    and sn: "snd (postOAuth2Client e st c) = st1\<lparr>trace := trace st @ [Do r]\<rparr>"
    by auto
  from sn assms have "r = req" by simp
  with nr have nr': "newRequest e st ''POST'' [] (Some c) = (Inr req, st1)" by simp
  from newRequest_headers[OF nr'] newRequest_Inr(2)[OF nr'] show ?thesis by simp
qed

text \<open>
  C9. Every request that \<open>newRequest\<close> builds carries \<^verbatim>\<open>Accept: application/json\<close>;
  it carries \<^verbatim>\<open>Content-Type: application/json\<close> when a body was given and no
  \<^verbatim>\<open>Content-Type\<close> at all otherwise; its body is the JSON encoding of the given
  value, and there is none when none was given. The request that Lookup sends has no
  body and no \<^verbatim>\<open>Content-Type\<close>; the request that Create sends has the encoding of
  the desired client as its body, and the \<^verbatim>\<open>Content-Type\<close>.
\<close>

theorem C9_request_headers_and_body:
  "(newRequest e st method relativePath b = (Inr req, st1) \<longrightarrow>
      Header req ''Accept'' = Some ''application/json''
      \<and> (b \<noteq> None \<longrightarrow> Header req ''Content-Type'' = Some ''application/json'')
      \<and> (b = None \<longrightarrow> Header req ''Content-Type'' = None \<and> Request.Body req = None)
      \<and> (\<forall>c. b = Some c \<longrightarrow> (\<exists>s. json_Encode e c = Inr s \<and> Request.Body req = Some s)))
   \<and> (trace (snd (getOAuth2Client e st ident)) = trace st @ [Do greq] \<longrightarrow>
      Method greq = ''GET'' \<and> Header greq ''Accept'' = Some ''application/json''
      \<and> Header greq ''Content-Type'' = None \<and> Request.Body greq = None)
   \<and> (trace (snd (postOAuth2Client e st c')) = trace st @ [Do preq] \<longrightarrow>
      Method preq = ''POST'' \<and> Header preq ''Accept'' = Some ''application/json''
      \<and> Header preq ''Content-Type'' = Some ''application/json''
      \<and> (\<exists>s. json_Encode e c' = Inr s \<and> Request.Body preq = Some s))"
  using newRequest_headers[of e st "method" "relativePath" b req st1]
        lookup_request[of e st ident greq] create_request[of e st c' preq]
  by blast

lemmas library_defs = path_Join_def path_Clean_def url_String_def Let_def

theorem C9_request_headers_and_body_witness:
  "newRequest accepting_env base_state ''POST'' [] (Some (ToOAuth2ClientJSON demo_client))
     = (Inr \<lparr> Method = ''POST'', URL = ''http://hydra/clients'',
               Header = [''Content-Type'' \<mapsto> ''application/json'', ''Accept'' \<mapsto> ''application/json''],
               Request.Body = Some (encode_JSON (ToOAuth2ClientJSON demo_client)) \<rparr>, base_state)
   \<and> Header \<lparr> Method = ''POST'', URL = ''http://hydra/clients'',
               Header = [''Content-Type'' \<mapsto> ''application/json'', ''Accept'' \<mapsto> ''application/json''],
               Request.Body = Some (encode_JSON (ToOAuth2ClientJSON demo_client)) \<rparr> ''Content-Type''
       = Some ''application/json''
   \<and> trace (snd (getOAuth2Client accepting_env base_state ''abc123''))
       = trace base_state @ [Do \<lparr> Method = ''GET'', URL = ''http://hydra/clients/abc123'',
                                  Header = [''Accept'' \<mapsto> ''application/json''],
                                  Request.Body = None \<rparr>]
   \<and> trace (snd (postOAuth2Client accepting_env base_state (ToOAuth2ClientJSON demo_client)))
       = trace base_state @ [Do \<lparr> Method = ''POST'', URL = ''http://hydra/clients'',
               Header = [''Content-Type'' \<mapsto> ''application/json'', ''Accept'' \<mapsto> ''application/json''],
               Request.Body = Some (encode_JSON (ToOAuth2ClientJSON demo_client)) \<rparr>]"
proof -
  let ?R = "\<lparr> Method = ''POST'', URL = ''http://hydra/clients'',
               Header = [''Content-Type'' \<mapsto> ''application/json'', ''Accept'' \<mapsto> ''application/json''],
               Request.Body = Some (encode_JSON (ToOAuth2ClientJSON demo_client)) \<rparr>"
  let ?G = "\<lparr> Method = ''GET'', URL = ''http://hydra/clients/abc123'',
               Header = [''Accept'' \<mapsto> ''application/json''], Request.Body = None \<rparr>"
  have n: "newRequest accepting_env base_state ''POST'' [] (Some (ToOAuth2ClientJSON demo_client))
             = (Inr ?R, base_state)"
    by (simp add: newRequest_def accepting_env_def fixture_env_def response_def demo_client_def
                  base_state_def empty_record_def created_record_def library_defs)
  have g: "trace (snd (getOAuth2Client accepting_env base_state ''abc123''))
             = trace base_state @ [Do ?G]"
    by (simp add: getOAuth2Client_def do_def newRequest_def accepting_env_def fixture_env_def
                  response_def demo_client_def base_state_def empty_record_def
                  created_record_def library_defs)
  have p: "trace (snd (postOAuth2Client accepting_env base_state (ToOAuth2ClientJSON demo_client)))
             = trace base_state @ [Do ?R]"
    by (simp add: postOAuth2Client_def do_def newRequest_def accepting_env_def fixture_env_def
                  response_def demo_client_def base_state_def empty_record_def
                  created_record_def library_defs)
  from C9_request_headers_and_body
         [of accepting_env base_state "''POST''" "[]" "Some (ToOAuth2ClientJSON demo_client)" ?R
             base_state "''abc123''" ?G "ToOAuth2ClientJSON demo_client" ?R]
       n g p
  show ?thesis by simp
qed

section \<open>Lookup\<close>

lemma getOAuth2Client_answered:
  assumes "newRequest e st ''GET'' ident None = (Inr req, st1)"
    and "HTTPClient_Do e (trace st1) req = Inr resp"
  shows "getOAuth2Client e st ident =
           ((case json_Decode (Response.Body resp) of
               Inl err \<Rightarrow> (None, False, Some err)
             | Inr v \<Rightarrow>
                 if StatusCode resp = 200 then (v, True, None)
                 else if StatusCode resp = 404 then (None, False, None)
                 else (None, False,
                       Some (Errorf (Method req @ '' '' @ URL req
                                     @ '' http request returned unexpected status code ''
                                     @ Response.Status resp)))),
            st1\<lparr>trace := trace st1 @ [Do req]\<rparr>)"
  using assms by (simp add: getOAuth2Client_def do_def Let_def split: sum.splits)

lemma sublist_middle: "sublist u (m @ '' '' @ u @ rest)"
proof -
  have "m @ '' '' @ u @ rest = (m @ '' '') @ u @ rest" by simp
  then show ?thesis unfolding sublist_def by blast
qed

lemma sublist_last: "sublist t (m @ '' '' @ u @ mid @ t)"
proof -
  have "m @ '' '' @ u @ mid @ t = (m @ '' '' @ u @ mid) @ t @ []" by simp
  then show ?thesis unfolding sublist_def by blast
qed

text \<open>
  C4, amended. When the registry answers the lookup and the body of the answer decodes,
  the status decides: 200 gives the decoded record with found = true and no error; 404
  gives no record, found = false and no error; every other status gives an error whose
  message holds the method \<^verbatim>\<open>GET\<close>, the URL of the request and the status text.
\<close>

theorem C4_lookup_status_mapping:
  assumes "newRequest e st ''GET'' ident None = (Inr req, st1)"
    and "HTTPClient_Do e (trace st1) req = Inr resp"
    and "json_Decode (Response.Body resp) = Inr v"
  shows "(StatusCode resp = 200 \<longrightarrow> fst (getOAuth2Client e st ident) = (v, True, None))
       \<and> (StatusCode resp = 404 \<longrightarrow> fst (getOAuth2Client e st ident) = (None, False, None))
       \<and> (StatusCode resp \<noteq> 200 \<and> StatusCode resp \<noteq> 404 \<longrightarrow>
            (\<exists>msg. fst (getOAuth2Client e st ident) = (None, False, Some (Errorf msg))
                  \<and> msg = ''GET '' @ URL req @ '' http request returned unexpected status code ''
                             @ Response.Status resp
                  \<and> sublist ''GET'' msg \<and> sublist (URL req) msg
                  \<and> sublist (Response.Status resp) msg))
       \<and> Method req = ''GET'' \<and> URL req = url_String (HydraURL st1)"
proof -
  have m: "Method req = ''GET''"
    using newRequest_Inr(2)[OF assms(1)] by simp
  have u: "URL req = url_String (HydraURL st1)"
    using newRequest_Inr(3)[OF assms(1)] .
  let ?msg = "''GET'' @ '' '' @ URL req @ '' http request returned unexpected status code ''
                @ Response.Status resp"
  have r: "fst (getOAuth2Client e st ident) =
             (if StatusCode resp = 200 then (v, True, None)
              else if StatusCode resp = 404 then (None, False, None)
              else (None, False, Some (Errorf ?msg)))"
    using getOAuth2Client_answered[OF assms(1,2)] assms(3) m by simp
  have s1: "sublist ''GET'' ?msg" by (rule sublist_append_rightI)
  have s2: "sublist (URL req) ?msg" by (rule sublist_middle)
  have s3: "sublist (Response.Status resp) ?msg" by (rule sublist_last)
  have e: "?msg = ''GET '' @ URL req @ '' http request returned unexpected status code ''
                     @ Response.Status resp" by simp
  from r s1 s2 s3 m u show ?thesis unfolding e by simp
qed

theorem C4_lookup_status_mapping_witness:
  "newRequest accepting_env base_state ''GET'' ''abc123'' None
     = (Inr \<lparr> Method = ''GET'', URL = ''http://hydra/clients/abc123'',
               Header = [''Accept'' \<mapsto> ''application/json''], Request.Body = None \<rparr>,
        base_state\<lparr>HydraURL := \<lparr> Scheme = ''http'', Host = ''hydra'', Path = ''/clients/abc123'' \<rparr>\<rparr>)
   \<and> HTTPClient_Do accepting_env []
        \<lparr> Method = ''GET'', URL = ''http://hydra/clients/abc123'',
          Header = [''Accept'' \<mapsto> ''application/json''], Request.Body = None \<rparr>
       = Inr (response 404 ''404 Not Found'' (JsonObject empty_record))
   \<and> json_Decode (JsonObject empty_record) = Inr (Some empty_record)
   \<and> fst (getOAuth2Client accepting_env base_state ''abc123'') = (None, False, None)"
proof -
  let ?G = "\<lparr> Method = ''GET'', URL = ''http://hydra/clients/abc123'',
               Header = [''Accept'' \<mapsto> ''application/json''], Request.Body = None \<rparr>"
  let ?s1 = "base_state\<lparr>HydraURL := \<lparr> Scheme = ''http'', Host = ''hydra'', Path = ''/clients/abc123'' \<rparr>\<rparr>"
  let ?resp = "response 404 ''404 Not Found'' (JsonObject empty_record)"
  have n: "newRequest accepting_env base_state ''GET'' ''abc123'' None = (Inr ?G, ?s1)"
    by (simp add: newRequest_def accepting_env_def fixture_env_def response_def demo_client_def
                  base_state_def empty_record_def created_record_def library_defs)
  have d: "HTTPClient_Do accepting_env (trace ?s1) ?G = Inr ?resp"
    by (simp add: accepting_env_def fixture_env_def response_def demo_client_def base_state_def
                  empty_record_def created_record_def)
  have j: "json_Decode (Response.Body ?resp) = Inr (Some empty_record)"
    by (simp add: response_def)
  have t: "trace ?s1 = []" by (simp add: base_state_def)
  from C4_lookup_status_mapping[OF n d j] n d j t show ?thesis
    by (simp add: response_def)
qed

text \<open>
  C4 as stated fails: a 404 answer without a body is an error of the lookup, because
  the decoder meets the end of the input before the status is looked at.
\<close>

theorem C4_not_found_without_body_is_error:
  "HTTPClient_Do bodyless_env []
        \<lparr> Method = ''GET'', URL = ''http://hydra/clients/abc123'',
          Header = [''Accept'' \<mapsto> ''application/json''], Request.Body = None \<rparr>
       = Inr \<lparr> StatusCode = 404, Response.Status = ''404 Not Found'', Response.Body = Undecodable ''EOF'' \<rparr>
   \<and> getOAuth2Client bodyless_env base_state ''abc123''
       = ((None, False, Some (DecodeError ''EOF'')),
          \<lparr> HydraURL = \<lparr> Scheme = ''http'', Host = ''hydra'', Path = ''/clients/abc123'' \<rparr>,
            trace = [Do \<lparr> Method = ''GET'', URL = ''http://hydra/clients/abc123'',
                          Header = [''Accept'' \<mapsto> ''application/json''], Request.Body = None \<rparr>] \<rparr>)
   \<and> fst (getOAuth2Client bodyless_env base_state ''abc123'') \<noteq> (None, False, None)"
  by (simp add: getOAuth2Client_def do_def newRequest_def bodyless_env_def fixture_env_def
                response_def demo_client_def base_state_def library_defs)

text \<open>
  C10. \<open>do\<close> decodes the body before \<open>getOAuth2Client\<close> looks at the status: an
  answer whose body does not decode makes the lookup return the decoder's error,
  whatever the status; on a 404 the lookup returns \<open>(None, False, None)\<close> exactly when
  the body decodes; and there is a 404 answer on which the lookup returns an error.
\<close>

theorem C10_decode_before_status:
  "(newRequest e st ''GET'' ident None = (Inr req, st1)
      \<and> HTTPClient_Do e (trace st1) req = Inr resp \<longrightarrow>
        (\<forall>m. Response.Body resp = Undecodable m \<longrightarrow>
              fst (getOAuth2Client e st ident) = (None, False, Some (DecodeError m)))
        \<and> (StatusCode resp = 404 \<longrightarrow>
              (fst (getOAuth2Client e st ident) = (None, False, None))
               = (\<exists>v. json_Decode (Response.Body resp) = Inr v)))
   \<and> (\<exists>e' st' ident' req' st1' resp' err.
         newRequest e' st' ''GET'' ident' None = (Inr req', st1')
         \<and> HTTPClient_Do e' (trace st1') req' = Inr resp'
         \<and> StatusCode resp' = 404
         \<and> fst (getOAuth2Client e' st' ident') = (None, False, Some err))"
proof -
  have a: "newRequest e st ''GET'' ident None = (Inr req, st1)
      \<and> HTTPClient_Do e (trace st1) req = Inr resp \<longrightarrow>
        (\<forall>m. Response.Body resp = Undecodable m \<longrightarrow>
              fst (getOAuth2Client e st ident) = (None, False, Some (DecodeError m)))
        \<and> (StatusCode resp = 404 \<longrightarrow>
              (fst (getOAuth2Client e st ident) = (None, False, None))
               = (\<exists>v. json_Decode (Response.Body resp) = Inr v))"
  proof (intro impI, elim conjE)
    assume n: "newRequest e st ''GET'' ident None = (Inr req, st1)"
      and d: "HTTPClient_Do e (trace st1) req = Inr resp"
    show "(\<forall>m. Response.Body resp = Undecodable m \<longrightarrow>
              fst (getOAuth2Client e st ident) = (None, False, Some (DecodeError m)))
        \<and> (StatusCode resp = 404 \<longrightarrow>
              (fst (getOAuth2Client e st ident) = (None, False, None))
               = (\<exists>v. json_Decode (Response.Body resp) = Inr v))"
      using getOAuth2Client_answered[OF n d]
      by (cases "Response.Body resp") auto
  qed
  let ?G = "\<lparr> Method = ''GET'', URL = ''http://hydra/clients/abc123'',
               Header = [''Accept'' \<mapsto> ''application/json''], Request.Body = None \<rparr>"
  let ?s1 = "base_state\<lparr>HydraURL := \<lparr> Scheme = ''http'', Host = ''hydra'', Path = ''/clients/abc123'' \<rparr>\<rparr>"
  let ?resp = "response 404 ''404 Not Found'' (Undecodable ''EOF'')"
  have n: "newRequest bodyless_env base_state ''GET'' ''abc123'' None = (Inr ?G, ?s1)"
    by (simp add: newRequest_def bodyless_env_def fixture_env_def response_def demo_client_def
                  base_state_def library_defs)
  have d: "HTTPClient_Do bodyless_env (trace ?s1) ?G = Inr ?resp"
    by (simp add: bodyless_env_def fixture_env_def response_def demo_client_def base_state_def)
  have c: "StatusCode ?resp = 404" by (simp add: response_def)
  have r: "fst (getOAuth2Client bodyless_env base_state ''abc123'') = (None, False, Some (DecodeError ''EOF''))"
    using getOAuth2Client_answered[OF n d] by (simp add: response_def)
  from n d c r have b: "\<exists>e' st' ident' req' st1' resp' err.
         newRequest e' st' ''GET'' ident' None = (Inr req', st1')
         \<and> HTTPClient_Do e' (trace st1') req' = Inr resp'
         \<and> StatusCode resp' = 404
         \<and> fst (getOAuth2Client e' st' ident') = (None, False, Some err)"
    by blast
  from a b show ?thesis by blast
qed

theorem C10_decode_before_status_witness:
  "newRequest bodyless_env base_state ''GET'' ''abc123'' None
     = (Inr \<lparr> Method = ''GET'', URL = ''http://hydra/clients/abc123'',
               Header = [''Accept'' \<mapsto> ''application/json''], Request.Body = None \<rparr>,
        base_state\<lparr>HydraURL := \<lparr> Scheme = ''http'', Host = ''hydra'', Path = ''/clients/abc123'' \<rparr>\<rparr>)
   \<and> HTTPClient_Do bodyless_env []
        \<lparr> Method = ''GET'', URL = ''http://hydra/clients/abc123'',
          Header = [''Accept'' \<mapsto> ''application/json''], Request.Body = None \<rparr>
       = Inr (response 404 ''404 Not Found'' (Undecodable ''EOF''))
   \<and> StatusCode (response 404 ''404 Not Found'' (Undecodable ''EOF'')) = 404
   \<and> fst (getOAuth2Client bodyless_env base_state ''abc123'') = (None, False, Some (DecodeError ''EOF''))"
proof -
  let ?G = "\<lparr> Method = ''GET'', URL = ''http://hydra/clients/abc123'',
               Header = [''Accept'' \<mapsto> ''application/json''], Request.Body = None \<rparr>"
  let ?s1 = "base_state\<lparr>HydraURL := \<lparr> Scheme = ''http'', Host = ''hydra'', Path = ''/clients/abc123'' \<rparr>\<rparr>"
  let ?resp = "response 404 ''404 Not Found'' (Undecodable ''EOF'')"
  have n: "newRequest bodyless_env base_state ''GET'' ''abc123'' None = (Inr ?G, ?s1)"
    by (simp add: newRequest_def bodyless_env_def fixture_env_def response_def demo_client_def
                  base_state_def library_defs)
  have d: "HTTPClient_Do bodyless_env (trace ?s1) ?G = Inr ?resp"
    by (simp add: bodyless_env_def fixture_env_def response_def demo_client_def base_state_def)
  have t: "trace ?s1 = []" by (simp add: base_state_def)
  have b: "Response.Body ?resp = Undecodable ''EOF''" by (simp add: response_def)
  from C10_decode_before_status[of bodyless_env base_state "''abc123''" ?G ?s1 ?resp] n d t b
  show ?thesis by (simp add: response_def)
qed

section \<open>Create\<close>

lemma postOAuth2Client_answered:
  assumes "newRequest e st ''POST'' [] (Some c) = (Inr req, st1)"
    and "HTTPClient_Do e (trace st1) req = Inr resp"
  shows "postOAuth2Client e st c =
           ((case json_Decode (Response.Body resp) of
               Inl err \<Rightarrow> (None, Some err)
             | Inr v \<Rightarrow>
                 if StatusCode resp = 201 then (v, None)
                 else if StatusCode resp = 409 then
                   (None, Some (Errorf ('' '' @ Method req @ '' '' @ URL req
                                        @ '' http request failed: requested ID already exists'')))
                 else (None,
                       Some (Errorf (Method req @ '' '' @ URL req
                                     @ '' http request returned unexpected status code: ''
                                     @ Response.Status resp)))),
            st1\<lparr>trace := trace st1 @ [Do req]\<rparr>)"
  using assms by (simp add: postOAuth2Client_def do_def Let_def split: sum.splits)

lemma registerOAuth2Client_failed:
  assumes "postOAuth2Client e st (ToOAuth2ClientJSON client) = ((created, Some err), st1)"
  shows "registerOAuth2Client e st client = ((Some err, client), st1)"
  using assms by (cases created) (simp_all add: registerOAuth2Client_def)

lemma registerOAuth2Client_created:
  assumes "postOAuth2Client e st (ToOAuth2ClientJSON client) = ((Some cr, None), st1)"
    and "OAuth2ClientJSON.Secret cr = Some sec"
  shows "registerOAuth2Client e st client =
           (case Client_Create e (trace st1)
                   \<lparr> apiv1_Secret.Name = OAuth2Client.Name client,
                     apiv1_Secret.Namespace = OAuth2Client.Namespace client,
                     Data = [''client_secret'' \<mapsto> sec] \<rparr> of
              Some err \<Rightarrow>
                ((Some err, client),
                 st1\<lparr>trace := trace st1 @
                    [Create \<lparr> apiv1_Secret.Name = OAuth2Client.Name client,
                              apiv1_Secret.Namespace = OAuth2Client.Namespace client,
                              Data = [''client_secret'' \<mapsto> sec] \<rparr>]\<rparr>)
            | None \<Rightarrow>
                ((Client_Status_Update e
                    (trace st1 @
                      [Create \<lparr> apiv1_Secret.Name = OAuth2Client.Name client,
                                apiv1_Secret.Namespace = OAuth2Client.Namespace client,
                                Data = [''client_secret'' \<mapsto> sec] \<rparr>])
                    (client\<lparr>OAuth2Client.Status :=
                       \<lparr> OAuth2ClientStatus.Secret = Some (OAuth2Client.Name client),
                         OAuth2ClientStatus.ClientID = OAuth2ClientJSON.ClientID cr \<rparr>\<rparr>),
                  client\<lparr>OAuth2Client.Status :=
                       \<lparr> OAuth2ClientStatus.Secret = Some (OAuth2Client.Name client),
                         OAuth2ClientStatus.ClientID = OAuth2ClientJSON.ClientID cr \<rparr>\<rparr>),
                 st1\<lparr>trace := trace st1 @
                    [Create \<lparr> apiv1_Secret.Name = OAuth2Client.Name client,
                              apiv1_Secret.Namespace = OAuth2Client.Namespace client,
                              Data = [''client_secret'' \<mapsto> sec] \<rparr>,
                     StatusUpdate (client\<lparr>OAuth2Client.Status :=
                       \<lparr> OAuth2ClientStatus.Secret = Some (OAuth2Client.Name client),
                         OAuth2ClientStatus.ClientID = OAuth2ClientJSON.ClientID cr \<rparr>\<rparr>)]\<rparr>))"
  using assms
  by (cases "OAuth2Client.Status client")
     (simp add: registerOAuth2Client_def Let_def split: option.splits)

lemma sublist_already_exists:
  "sublist ''already exists'' (a @ '' http request failed: requested ID already exists'')"
proof -
  have "a @ '' http request failed: requested ID already exists''
        = (a @ '' http request failed: requested ID '') @ ''already exists'' @ []"
    by simp
  then show ?thesis unfolding sublist_def by blast
qed

text \<open>
  C5, amended. When the registry answers the creation request and the body of the
  answer decodes, the status decides: 201 gives the decoded record and no error; 409
  gives an error whose message contains \<^verbatim>\<open>already exists\<close>; every other status gives
  the unexpected-status error with the method, the URL and the status text. On a 409
  \<open>registerOAuth2Client\<close> returns that error, leaves the resource object as it was and
  calls the store neither for a secret nor for the status.
\<close>

theorem C5_create_status_mapping:
  assumes "newRequest e st ''POST'' [] (Some (ToOAuth2ClientJSON client)) = (Inr req, st1)"
    and "HTTPClient_Do e (trace st1) req = Inr resp"
    and "json_Decode (Response.Body resp) = Inr v"
  shows "(StatusCode resp = 201 \<longrightarrow>
            fst (postOAuth2Client e st (ToOAuth2ClientJSON client)) = (v, None))
       \<and> (StatusCode resp = 409 \<longrightarrow>
            (\<exists>msg. fst (postOAuth2Client e st (ToOAuth2ClientJSON client)) = (None, Some (Errorf msg))
                  \<and> sublist ''already exists'' msg
                  \<and> registerOAuth2Client e st client
                      = ((Some (Errorf msg), client), st1\<lparr>trace := trace st @ [Do req]\<rparr>)))
       \<and> (StatusCode resp \<noteq> 201 \<and> StatusCode resp \<noteq> 409 \<longrightarrow>
            fst (postOAuth2Client e st (ToOAuth2ClientJSON client))
              = (None, Some (Errorf (''POST '' @ URL req
                                     @ '' http request returned unexpected status code: ''
                                     @ Response.Status resp))))"
proof -
  have m: "Method req = ''POST''"
    using newRequest_Inr(2)[OF assms(1)] by simp
  have t: "trace st1 = trace st"
    using newRequest_trace[of e st "''POST''" "[]" "Some (ToOAuth2ClientJSON client)"] assms(1)
    by simp
  let ?msg = "'' POST '' @ URL req @ '' http request failed: requested ID already exists''"
  have p: "postOAuth2Client e st (ToOAuth2ClientJSON client) =
             ((if StatusCode resp = 201 then (v, None)
               else if StatusCode resp = 409 then (None, Some (Errorf ?msg))
               else (None, Some (Errorf (''POST '' @ URL req
                                     @ '' http request returned unexpected status code: ''
                                     @ Response.Status resp)))),
              st1\<lparr>trace := trace st @ [Do req]\<rparr>)"
    using postOAuth2Client_answered[OF assms(1,2)] assms(3) m t by simp
  have s: "sublist ''already exists'' ?msg"
    using sublist_already_exists[of "'' POST '' @ URL req"] by simp
  have r: "StatusCode resp = 409 \<longrightarrow>
             registerOAuth2Client e st client
               = ((Some (Errorf ?msg), client), st1\<lparr>trace := trace st @ [Do req]\<rparr>)"
  proof
    assume c: "StatusCode resp = 409"
    with p have "postOAuth2Client e st (ToOAuth2ClientJSON client)
                   = ((None, Some (Errorf ?msg)), st1\<lparr>trace := trace st @ [Do req]\<rparr>)"
      by simp
    from registerOAuth2Client_failed[OF this]
    show "registerOAuth2Client e st client
            = ((Some (Errorf ?msg), client), st1\<lparr>trace := trace st @ [Do req]\<rparr>)" .
  qed
  have c1: "StatusCode resp = 201 \<longrightarrow>
            fst (postOAuth2Client e st (ToOAuth2ClientJSON client)) = (v, None)"
    using p by simp
  have c2: "StatusCode resp = 409 \<longrightarrow>
            (\<exists>msg. fst (postOAuth2Client e st (ToOAuth2ClientJSON client)) = (None, Some (Errorf msg))
                  \<and> sublist ''already exists'' msg
                  \<and> registerOAuth2Client e st client
                      = ((Some (Errorf msg), client), st1\<lparr>trace := trace st @ [Do req]\<rparr>))"
  proof
    assume c: "StatusCode resp = 409"
    from p c have "fst (postOAuth2Client e st (ToOAuth2ClientJSON client)) = (None, Some (Errorf ?msg))"
      by simp
    with s r c
    show "\<exists>msg. fst (postOAuth2Client e st (ToOAuth2ClientJSON client)) = (None, Some (Errorf msg))
                  \<and> sublist ''already exists'' msg
                  \<and> registerOAuth2Client e st client
                      = ((Some (Errorf msg), client), st1\<lparr>trace := trace st @ [Do req]\<rparr>)"
      by blast
  qed
  have c3: "StatusCode resp \<noteq> 201 \<and> StatusCode resp \<noteq> 409 \<longrightarrow>
            fst (postOAuth2Client e st (ToOAuth2ClientJSON client))
              = (None, Some (Errorf (''POST '' @ URL req
                                     @ '' http request returned unexpected status code: ''
                                     @ Response.Status resp)))"
    using p by simp
  from c1 c2 c3 show ?thesis by blast
qed

theorem C5_create_status_mapping_witness:
  "newRequest conflict_env base_state ''POST'' [] (Some (ToOAuth2ClientJSON demo_client))
     = (Inr \<lparr> Method = ''POST'', URL = ''http://hydra/clients'',
               Header = [''Content-Type'' \<mapsto> ''application/json'', ''Accept'' \<mapsto> ''application/json''],
               Request.Body = Some (encode_JSON (ToOAuth2ClientJSON demo_client)) \<rparr>, base_state)
   \<and> HTTPClient_Do conflict_env []
        \<lparr> Method = ''POST'', URL = ''http://hydra/clients'',
          Header = [''Content-Type'' \<mapsto> ''application/json'', ''Accept'' \<mapsto> ''application/json''],
          Request.Body = Some (encode_JSON (ToOAuth2ClientJSON demo_client)) \<rparr>
       = Inr (response 409 ''409 Conflict'' (JsonObject empty_record))
   \<and> json_Decode (JsonObject empty_record) = Inr (Some empty_record)
   \<and> fst (registerOAuth2Client conflict_env base_state demo_client)
       = (Some (Errorf '' POST http://hydra/clients http request failed: requested ID already exists''),
          demo_client)
   \<and> trace (snd (registerOAuth2Client conflict_env base_state demo_client))
       = [Do \<lparr> Method = ''POST'', URL = ''http://hydra/clients'',
          Header = [''Content-Type'' \<mapsto> ''application/json'', ''Accept'' \<mapsto> ''application/json''],
          Request.Body = Some (encode_JSON (ToOAuth2ClientJSON demo_client)) \<rparr>]"
proof -
  let ?R = "\<lparr> Method = ''POST'', URL = ''http://hydra/clients'',
               Header = [''Content-Type'' \<mapsto> ''application/json'', ''Accept'' \<mapsto> ''application/json''],
               Request.Body = Some (encode_JSON (ToOAuth2ClientJSON demo_client)) \<rparr>"
  let ?resp = "response 409 ''409 Conflict'' (JsonObject empty_record)"
  have n: "newRequest conflict_env base_state ''POST'' [] (Some (ToOAuth2ClientJSON demo_client))
             = (Inr ?R, base_state)"
    by (simp add: newRequest_def conflict_env_def fixture_env_def response_def demo_client_def
                  base_state_def empty_record_def library_defs)
  have d: "HTTPClient_Do conflict_env (trace base_state) ?R = Inr ?resp"
    by (simp add: conflict_env_def fixture_env_def response_def demo_client_def base_state_def
                  empty_record_def)
  have j: "json_Decode (Response.Body ?resp) = Inr (Some empty_record)"
    by (simp add: response_def)
  have t: "trace base_state = []" by (simp add: base_state_def)
  have c: "StatusCode ?resp = 409" by (simp add: response_def)
  from C5_create_status_mapping[OF n d j] c
  obtain msg where
    1: "fst (postOAuth2Client conflict_env base_state (ToOAuth2ClientJSON demo_client))
          = (None, Some (Errorf msg))"
    and 2: "registerOAuth2Client conflict_env base_state demo_client
          = ((Some (Errorf msg), demo_client), base_state\<lparr>trace := trace base_state @ [Do ?R]\<rparr>)"
    by blast
  have "fst (postOAuth2Client conflict_env base_state (ToOAuth2ClientJSON demo_client))
          = (None, Some (Errorf '' POST http://hydra/clients http request failed: requested ID already exists''))"
    using postOAuth2Client_answered[OF n d] by (simp add: response_def)
  with 1 have "msg = '' POST http://hydra/clients http request failed: requested ID already exists''"
    by simp
  with 2 n d j t show ?thesis by (simp add: response_def)
qed

text \<open>
  C5 as stated fails: a 409 answer without a body makes Create return the decoder's
  error, whose message does not contain \<^verbatim>\<open>already exists\<close>.
\<close>

theorem C5_conflict_without_body_message:
  "HTTPClient_Do bodyless_env []
        \<lparr> Method = ''POST'', URL = ''http://hydra/clients'',
          Header = [''Content-Type'' \<mapsto> ''application/json'', ''Accept'' \<mapsto> ''application/json''],
          Request.Body = Some (encode_JSON (ToOAuth2ClientJSON demo_client)) \<rparr>
       = Inr \<lparr> StatusCode = 409, Response.Status = ''409 Conflict'', Response.Body = Undecodable ''EOF'' \<rparr>
   \<and> postOAuth2Client bodyless_env base_state (ToOAuth2ClientJSON demo_client)
       = ((None, Some (DecodeError ''EOF'')),
          base_state\<lparr>trace := [Do \<lparr> Method = ''POST'', URL = ''http://hydra/clients'',
             Header = [''Content-Type'' \<mapsto> ''application/json'', ''Accept'' \<mapsto> ''application/json''],
             Request.Body = Some (encode_JSON (ToOAuth2ClientJSON demo_client)) \<rparr>]\<rparr>)
   \<and> Error (DecodeError ''EOF'') = ''EOF''
   \<and> \<not> sublist ''already exists'' (Error (DecodeError ''EOF''))"
proof -
  have "\<not> sublist ''already exists'' ''EOF''"
    using sublist_length_le[of "''already exists''" "''EOF''"] by auto
  then show ?thesis
    by (simp add: postOAuth2Client_def do_def newRequest_def bodyless_env_def fixture_env_def
                  response_def demo_client_def base_state_def library_defs)
qed

section \<open>Registration\<close>

lemma Reconcile_unregistered:
  assumes "Client_Get e (trace st) key = Inr client"
    and "OAuth2ClientStatus.ClientID (OAuth2Client.Status client) = None"
  shows "Reconcile e st key =
           (fst (fst (registerOAuth2Client e (st\<lparr>trace := trace st @ [Get key]\<rparr>) client)),
            snd (registerOAuth2Client e (st\<lparr>trace := trace st @ [Get key]\<rparr>) client))"
  using assms by (simp add: Reconcile_def Let_def split: prod.splits)

lemma Reconcile_registered:
  assumes "Client_Get e (trace st) key = Inr client"
    and "OAuth2ClientStatus.ClientID (OAuth2Client.Status client) = Some ident"
    and "getOAuth2Client e (st\<lparr>trace := trace st @ [Get key]\<rparr>) ident = ((j, found, err), st1)"
  shows "Reconcile e st key =
           (if err \<noteq> None then (err, st1)
            else if \<not> found
            then (fst (fst (registerOAuth2Client e st1 client)), snd (registerOAuth2Client e st1 client))
            else (None, st1))"
  using assms by (simp add: Reconcile_def Let_def split: prod.splits)

lemma registerOAuth2Client_accepted:
  assumes n: "newRequest e st0 ''POST'' [] (Some (ToOAuth2ClientJSON client)) = (Inr req, st1)"
    and d: "HTTPClient_Do e (trace st0) req = Inr resp"
    and c: "StatusCode resp = 201"
    and b: "Response.Body resp = JsonObject cr"
    and s: "OAuth2ClientJSON.Secret cr = Some sec"
  shows "registerOAuth2Client e st0 client =
           (case Client_Create e (trace st0 @ [Do req])
                   \<lparr> apiv1_Secret.Name = OAuth2Client.Name client,
                     apiv1_Secret.Namespace = OAuth2Client.Namespace client,
                     Data = [''client_secret'' \<mapsto> sec] \<rparr> of
              Some err \<Rightarrow>
                ((Some err, client),
                 st1\<lparr>trace := trace st0 @
                    [Do req,
                     Create \<lparr> apiv1_Secret.Name = OAuth2Client.Name client,
                              apiv1_Secret.Namespace = OAuth2Client.Namespace client,
                              Data = [''client_secret'' \<mapsto> sec] \<rparr>]\<rparr>)
            | None \<Rightarrow>
                ((Client_Status_Update e
                    (trace st0 @
                      [Do req,
                       Create \<lparr> apiv1_Secret.Name = OAuth2Client.Name client,
                                apiv1_Secret.Namespace = OAuth2Client.Namespace client,
                                Data = [''client_secret'' \<mapsto> sec] \<rparr>])
                    (client\<lparr>OAuth2Client.Status :=
                       \<lparr> OAuth2ClientStatus.Secret = Some (OAuth2Client.Name client),
                         OAuth2ClientStatus.ClientID = OAuth2ClientJSON.ClientID cr \<rparr>\<rparr>),
                  client\<lparr>OAuth2Client.Status :=
                       \<lparr> OAuth2ClientStatus.Secret = Some (OAuth2Client.Name client),
                         OAuth2ClientStatus.ClientID = OAuth2ClientJSON.ClientID cr \<rparr>\<rparr>),
                 st1\<lparr>trace := trace st0 @
                    [Do req,
                     Create \<lparr> apiv1_Secret.Name = OAuth2Client.Name client,
                              apiv1_Secret.Namespace = OAuth2Client.Namespace client,
                              Data = [''client_secret'' \<mapsto> sec] \<rparr>,
                     StatusUpdate (client\<lparr>OAuth2Client.Status :=
                       \<lparr> OAuth2ClientStatus.Secret = Some (OAuth2Client.Name client),
                         OAuth2ClientStatus.ClientID = OAuth2ClientJSON.ClientID cr \<rparr>\<rparr>)]\<rparr>))"
proof -
  have t: "trace st1 = trace st0"
    using newRequest_trace[of e st0 "''POST''" "[]" "Some (ToOAuth2ClientJSON client)"] n by simp
  have d': "HTTPClient_Do e (trace st1) req = Inr resp"
    using d t by simp
  have p: "postOAuth2Client e st0 (ToOAuth2ClientJSON client)
             = ((Some cr, None), st1\<lparr>trace := trace st0 @ [Do req]\<rparr>)"
    using postOAuth2Client_answered[OF n d'] c b t by simp
  show ?thesis
    using registerOAuth2Client_created[OF p s]
    by (simp split: option.splits)
qed

lemma filter_Create_call_append:
  "Method req = ''POST'' \<Longrightarrow>
   filter is_Create_call (tr @ [Get key, Do req, Create sc, StatusUpdate up])
     = filter is_Create_call tr @ [Do req]"
  by simp

text \<open>
  C1. A resource whose status has no identifier is loaded; the registry answers the
  creation request with 201 and a record that holds a non-empty identifier and a
  secret; the store accepts the secret and the status update. Then one invocation of
  \<open>Reconcile\<close> succeeds and makes exactly these calls after the load: one POST whose
  body is the encoding of the resource's name, grant types, response types and scope;
  the creation of a secret with the resource's name and namespace that holds the
  returned secret under \<^verbatim>\<open>client_secret\<close>; and the update of the status to the
  secret's name and the returned identifier.
\<close>

theorem C1_first_registration:
  assumes "Client_Get e (trace st) key = Inr client"
    and "OAuth2ClientStatus.ClientID (OAuth2Client.Status client) = None"
    and "newRequest e (st\<lparr>trace := trace st @ [Get key]\<rparr>) ''POST'' []
           (Some (ToOAuth2ClientJSON client)) = (Inr req, st1)"
    and "HTTPClient_Do e (trace st @ [Get key]) req = Inr resp"
    and "StatusCode resp = 201"
    and "Response.Body resp = JsonObject cr"
    and "OAuth2ClientJSON.ClientID cr = Some cid" and "cid \<noteq> []"
    and "OAuth2ClientJSON.Secret cr = Some sec"
    and "Client_Create e (trace st @ [Get key, Do req])
           \<lparr> apiv1_Secret.Name = OAuth2Client.Name client,
             apiv1_Secret.Namespace = OAuth2Client.Namespace client,
             Data = [''client_secret'' \<mapsto> sec] \<rparr> = None"
    and "Client_Status_Update e
           (trace st @ [Get key, Do req,
              Create \<lparr> apiv1_Secret.Name = OAuth2Client.Name client,
                       apiv1_Secret.Namespace = OAuth2Client.Namespace client,
                       Data = [''client_secret'' \<mapsto> sec] \<rparr>])
           (client\<lparr>OAuth2Client.Status :=
              \<lparr> OAuth2ClientStatus.Secret = Some (OAuth2Client.Name client),
                OAuth2ClientStatus.ClientID = Some cid \<rparr>\<rparr>) = None"
  shows "Reconcile e st key =
           (None,
            st1\<lparr>trace := trace st @
              [Get key, Do req,
               Create \<lparr> apiv1_Secret.Name = OAuth2Client.Name client,
                        apiv1_Secret.Namespace = OAuth2Client.Namespace client,
                        Data = [''client_secret'' \<mapsto> sec] \<rparr>,
               StatusUpdate (client\<lparr>OAuth2Client.Status :=
                 \<lparr> OAuth2ClientStatus.Secret = Some (OAuth2Client.Name client),
                   OAuth2ClientStatus.ClientID = Some cid \<rparr>\<rparr>)]\<rparr>)
       \<and> Method req = ''POST''
       \<and> (\<exists>buf. json_Encode e
                   \<lparr> OAuth2ClientJSON.ClientID = None,
                     OAuth2ClientJSON.Name = OAuth2Client.Name client,
                     OAuth2ClientJSON.Secret = None,
                     OAuth2ClientJSON.GrantTypes = OAuth2ClientSpec.GrantTypes (Spec client),
                     OAuth2ClientJSON.ResponseTypes = OAuth2ClientSpec.ResponseTypes (Spec client),
                     OAuth2ClientJSON.Scope = OAuth2ClientSpec.Scope (Spec client) \<rparr> = Inr buf
                \<and> Request.Body req = Some buf)
       \<and> filter is_Create_call (trace (snd (Reconcile e st key)))
           = filter is_Create_call (trace st) @ [Do req]"
proof -
  let ?st0 = "st\<lparr>trace := trace st @ [Get key]\<rparr>"
  have d: "HTTPClient_Do e (trace ?st0) req = Inr resp"
    using assms(4) by simp
  have m: "Method req = ''POST''"
    using newRequest_Inr(2)[OF assms(3)] by simp
  have bd: "\<exists>buf. json_Encode e (ToOAuth2ClientJSON client) = Inr buf \<and> Request.Body req = Some buf"
    using newRequest_headers[OF assms(3)] by simp
  have r: "registerOAuth2Client e ?st0 client =
             ((None, client\<lparr>OAuth2Client.Status :=
                  \<lparr> OAuth2ClientStatus.Secret = Some (OAuth2Client.Name client),
                    OAuth2ClientStatus.ClientID = Some cid \<rparr>\<rparr>),
              st1\<lparr>trace := trace st @
                [Get key, Do req,
                 Create \<lparr> apiv1_Secret.Name = OAuth2Client.Name client,
                          apiv1_Secret.Namespace = OAuth2Client.Namespace client,
                          Data = [''client_secret'' \<mapsto> sec] \<rparr>,
                 StatusUpdate (client\<lparr>OAuth2Client.Status :=
                   \<lparr> OAuth2ClientStatus.Secret = Some (OAuth2Client.Name client),
                     OAuth2ClientStatus.ClientID = Some cid \<rparr>\<rparr>)]\<rparr>)"
    using registerOAuth2Client_accepted[OF assms(3) d assms(5) assms(6) assms(9)]
          assms(7) assms(10) assms(11)
    by simp
  have R: "Reconcile e st key =
           (None,
            st1\<lparr>trace := trace st @
              [Get key, Do req,
               Create \<lparr> apiv1_Secret.Name = OAuth2Client.Name client,
                        apiv1_Secret.Namespace = OAuth2Client.Namespace client,
                        Data = [''client_secret'' \<mapsto> sec] \<rparr>,
               StatusUpdate (client\<lparr>OAuth2Client.Status :=
                 \<lparr> OAuth2ClientStatus.Secret = Some (OAuth2Client.Name client),
                   OAuth2ClientStatus.ClientID = Some cid \<rparr>\<rparr>)]\<rparr>)"
    using Reconcile_unregistered[OF assms(1,2)] r by simp
  have f: "filter is_Create_call (trace (snd (Reconcile e st key)))
           = filter is_Create_call (trace st) @ [Do req]"
    using R filter_Create_call_append[OF m] by simp
  from R m bd f show ?thesis by (simp add: ToOAuth2ClientJSON_def)
qed

theorem C1_first_registration_witness:
  "Client_Get accepting_env [] demo_key = Inr demo_client
   \<and> OAuth2ClientStatus.ClientID (OAuth2Client.Status demo_client) = None
   \<and> HTTPClient_Do accepting_env [Get demo_key]
        \<lparr> Method = ''POST'', URL = ''http://hydra/clients'',
          Header = [''Content-Type'' \<mapsto> ''application/json'', ''Accept'' \<mapsto> ''application/json''],
          Request.Body = Some (encode_JSON (ToOAuth2ClientJSON demo_client)) \<rparr>
       = Inr (response 201 ''201 Created'' (JsonObject created_record))
   \<and> OAuth2ClientJSON.ClientID created_record = Some ''abc123''
   \<and> OAuth2ClientJSON.Secret created_record = Some ''s3cr3t''
   \<and> Reconcile accepting_env base_state demo_key =
        (None,
         base_state\<lparr>trace :=
           [Get demo_key,
            Do \<lparr> Method = ''POST'', URL = ''http://hydra/clients'',
                 Header = [''Content-Type'' \<mapsto> ''application/json'', ''Accept'' \<mapsto> ''application/json''],
                 Request.Body = Some (encode_JSON (ToOAuth2ClientJSON demo_client)) \<rparr>,
            Create \<lparr> apiv1_Secret.Name = ''demo'', apiv1_Secret.Namespace = ''default'',
                     Data = [''client_secret'' \<mapsto> ''s3cr3t''] \<rparr>,
            StatusUpdate (demo_client\<lparr>OAuth2Client.Status :=
              \<lparr> OAuth2ClientStatus.Secret = Some ''demo'',
                OAuth2ClientStatus.ClientID = Some ''abc123'' \<rparr>\<rparr>)]\<rparr>)"
proof -
  let ?R = "\<lparr> Method = ''POST'', URL = ''http://hydra/clients'',
               Header = [''Content-Type'' \<mapsto> ''application/json'', ''Accept'' \<mapsto> ''application/json''],
               Request.Body = Some (encode_JSON (ToOAuth2ClientJSON demo_client)) \<rparr>"
  let ?resp = "response 201 ''201 Created'' (JsonObject created_record)"
  let ?st0 = "base_state\<lparr>trace := trace base_state @ [Get demo_key]\<rparr>"
  have t: "trace base_state = []" by (simp add: base_state_def)
  have nm: "OAuth2Client.Name demo_client = ''demo''"
    and ns: "OAuth2Client.Namespace demo_client = ''default''"
    by (simp_all add: demo_client_def)
  have g: "Client_Get accepting_env (trace base_state) demo_key = Inr demo_client"
    by (simp add: accepting_env_def fixture_env_def response_def demo_client_def demo_key_def
                  base_state_def empty_record_def created_record_def)
  have u: "OAuth2ClientStatus.ClientID (OAuth2Client.Status demo_client) = None"
    by (simp add: demo_client_def)
  have n: "newRequest accepting_env ?st0 ''POST'' [] (Some (ToOAuth2ClientJSON demo_client))
             = (Inr ?R, ?st0)"
    by (simp add: newRequest_def accepting_env_def fixture_env_def response_def demo_client_def
                  demo_key_def base_state_def empty_record_def created_record_def library_defs)
  have d: "HTTPClient_Do accepting_env (trace base_state @ [Get demo_key]) ?R = Inr ?resp"
    by (simp add: accepting_env_def fixture_env_def response_def demo_client_def demo_key_def
                  base_state_def empty_record_def created_record_def)
  have c: "StatusCode ?resp = 201" by (simp add: response_def)
  have b: "Response.Body ?resp = JsonObject created_record" by (simp add: response_def)
  have i: "OAuth2ClientJSON.ClientID created_record = Some ''abc123''"
    by (simp add: created_record_def empty_record_def)
  have ne: "''abc123'' \<noteq> []" by simp
  have s: "OAuth2ClientJSON.Secret created_record = Some ''s3cr3t''"
    by (simp add: created_record_def empty_record_def)
  have sc: "Client_Create accepting_env (trace base_state @ [Get demo_key, Do ?R])
           \<lparr> apiv1_Secret.Name = OAuth2Client.Name demo_client,
             apiv1_Secret.Namespace = OAuth2Client.Namespace demo_client,
             Data = [''client_secret'' \<mapsto> ''s3cr3t''] \<rparr> = None"
    by (simp add: accepting_env_def fixture_env_def)
  have su: "Client_Status_Update accepting_env
           (trace base_state @ [Get demo_key, Do ?R,
              Create \<lparr> apiv1_Secret.Name = OAuth2Client.Name demo_client,
                       apiv1_Secret.Namespace = OAuth2Client.Namespace demo_client,
                       Data = [''client_secret'' \<mapsto> ''s3cr3t''] \<rparr>])
           (demo_client\<lparr>OAuth2Client.Status :=
              \<lparr> OAuth2ClientStatus.Secret = Some (OAuth2Client.Name demo_client),
                OAuth2ClientStatus.ClientID = Some ''abc123'' \<rparr>\<rparr>) = None"
    by (simp add: accepting_env_def fixture_env_def)
  from C1_first_registration[OF g u n d c b i ne s sc su] g u d i s t nm ns
  show ?thesis by simp
qed

text \<open>
  C7. The registry answers the creation request with 201 and a record that holds a
  secret, and the store refuses the secret. Then \<open>registerOAuth2Client\<close> returns the
  store's error and leaves the resource object as it was; after the POST the only call
  is the refused creation of the secret: the status is not updated and the registry is
  not called again. For a resource without identifier \<open>Reconcile\<close> returns that
  error.
\<close>

theorem C7_secret_persistence_fails:
  assumes "newRequest e st0 ''POST'' [] (Some (ToOAuth2ClientJSON client)) = (Inr req, st1)"
    and "HTTPClient_Do e (trace st0) req = Inr resp"
    and "StatusCode resp = 201"
    and "Response.Body resp = JsonObject cr"
    and "OAuth2ClientJSON.Secret cr = Some sec"
    and "Client_Create e (trace st0 @ [Do req])
           \<lparr> apiv1_Secret.Name = OAuth2Client.Name client,
             apiv1_Secret.Namespace = OAuth2Client.Namespace client,
             Data = [''client_secret'' \<mapsto> sec] \<rparr> = Some err"
  shows "registerOAuth2Client e st0 client =
           ((Some err, client),
            st1\<lparr>trace := trace st0 @
              [Do req,
               Create \<lparr> apiv1_Secret.Name = OAuth2Client.Name client,
                        apiv1_Secret.Namespace = OAuth2Client.Namespace client,
                        Data = [''client_secret'' \<mapsto> sec] \<rparr>]\<rparr>)
       \<and> filter is_status_update (trace (snd (registerOAuth2Client e st0 client)))
           = filter is_status_update (trace st0)
       \<and> filter is_registry_call (trace (snd (registerOAuth2Client e st0 client)))
           = filter is_registry_call (trace st0) @ [Do req]
       \<and> (\<forall>st key. st0 = st\<lparr>trace := trace st @ [Get key]\<rparr>
              \<and> Client_Get e (trace st) key = Inr client
              \<and> OAuth2ClientStatus.ClientID (OAuth2Client.Status client) = None
            \<longrightarrow> Reconcile e st key =
                  (Some err,
                   st1\<lparr>trace := trace st @
                     [Get key, Do req,
                      Create \<lparr> apiv1_Secret.Name = OAuth2Client.Name client,
                               apiv1_Secret.Namespace = OAuth2Client.Namespace client,
                               Data = [''client_secret'' \<mapsto> sec] \<rparr>]\<rparr>))"
proof -
  have r: "registerOAuth2Client e st0 client =
           ((Some err, client),
            st1\<lparr>trace := trace st0 @
              [Do req,
               Create \<lparr> apiv1_Secret.Name = OAuth2Client.Name client,
                        apiv1_Secret.Namespace = OAuth2Client.Namespace client,
                        Data = [''client_secret'' \<mapsto> sec] \<rparr>]\<rparr>)"
    using registerOAuth2Client_accepted[OF assms(1-5)] assms(6) by simp
  have f1: "filter is_status_update (trace (snd (registerOAuth2Client e st0 client)))
           = filter is_status_update (trace st0)"
    using r by simp
  have f2: "filter is_registry_call (trace (snd (registerOAuth2Client e st0 client)))
           = filter is_registry_call (trace st0) @ [Do req]"
    using r by simp
  have R: "\<forall>st key. st0 = st\<lparr>trace := trace st @ [Get key]\<rparr>
              \<and> Client_Get e (trace st) key = Inr client
              \<and> OAuth2ClientStatus.ClientID (OAuth2Client.Status client) = None
            \<longrightarrow> Reconcile e st key =
                  (Some err,
                   st1\<lparr>trace := trace st @
                     [Get key, Do req,
                      Create \<lparr> apiv1_Secret.Name = OAuth2Client.Name client,
                               apiv1_Secret.Namespace = OAuth2Client.Namespace client,
                               Data = [''client_secret'' \<mapsto> sec] \<rparr>]\<rparr>)"
  proof (intro allI impI, elim conjE)
    fix st key
    assume s0: "st0 = st\<lparr>trace := trace st @ [Get key]\<rparr>"
      and g: "Client_Get e (trace st) key = Inr client"
      and u: "OAuth2ClientStatus.ClientID (OAuth2Client.Status client) = None"
    show "Reconcile e st key =
                  (Some err,
                   st1\<lparr>trace := trace st @
                     [Get key, Do req,
                      Create \<lparr> apiv1_Secret.Name = OAuth2Client.Name client,
                               apiv1_Secret.Namespace = OAuth2Client.Namespace client,
                               Data = [''client_secret'' \<mapsto> sec] \<rparr>]\<rparr>)"
      using Reconcile_unregistered[OF g u] r s0 by simp
  qed
  from r f1 f2 R show ?thesis by blast
qed

theorem C7_secret_persistence_fails_witness:
  "HTTPClient_Do failing_store_env [Get demo_key]
        \<lparr> Method = ''POST'', URL = ''http://hydra/clients'',
          Header = [''Content-Type'' \<mapsto> ''application/json'', ''Accept'' \<mapsto> ''application/json''],
          Request.Body = Some (encode_JSON (ToOAuth2ClientJSON demo_client)) \<rparr>
       = Inr (response 201 ''201 Created'' (JsonObject created_record))
   \<and> Client_Create failing_store_env
        [Get demo_key,
         Do \<lparr> Method = ''POST'', URL = ''http://hydra/clients'',
              Header = [''Content-Type'' \<mapsto> ''application/json'', ''Accept'' \<mapsto> ''application/json''],
              Request.Body = Some (encode_JSON (ToOAuth2ClientJSON demo_client)) \<rparr>]
        \<lparr> apiv1_Secret.Name = ''demo'', apiv1_Secret.Namespace = ''default'',
          Data = [''client_secret'' \<mapsto> ''s3cr3t''] \<rparr>
       = Some (ApiError ''secrets demo already exists'')
   \<and> Client_Get failing_store_env [] demo_key = Inr demo_client
   \<and> Reconcile failing_store_env base_state demo_key =
        (Some (ApiError ''secrets demo already exists''),
         base_state\<lparr>trace :=
           [Get demo_key,
            Do \<lparr> Method = ''POST'', URL = ''http://hydra/clients'',
                 Header = [''Content-Type'' \<mapsto> ''application/json'', ''Accept'' \<mapsto> ''application/json''],
                 Request.Body = Some (encode_JSON (ToOAuth2ClientJSON demo_client)) \<rparr>,
            Create \<lparr> apiv1_Secret.Name = ''demo'', apiv1_Secret.Namespace = ''default'',
                     Data = [''client_secret'' \<mapsto> ''s3cr3t''] \<rparr>]\<rparr>)"
proof -
  let ?R = "\<lparr> Method = ''POST'', URL = ''http://hydra/clients'',
               Header = [''Content-Type'' \<mapsto> ''application/json'', ''Accept'' \<mapsto> ''application/json''],
               Request.Body = Some (encode_JSON (ToOAuth2ClientJSON demo_client)) \<rparr>"
  let ?resp = "response 201 ''201 Created'' (JsonObject created_record)"
  let ?st0 = "base_state\<lparr>trace := trace base_state @ [Get demo_key]\<rparr>"
  have t: "trace base_state = []" by (simp add: base_state_def)
  have t0: "trace ?st0 = [Get demo_key]" by (simp add: base_state_def)
  have nm: "OAuth2Client.Name demo_client = ''demo''"
    and ns: "OAuth2Client.Namespace demo_client = ''default''"
    by (simp_all add: demo_client_def)
  have g: "Client_Get failing_store_env (trace base_state) demo_key = Inr demo_client"
    by (simp add: failing_store_env_def fixture_env_def response_def demo_client_def
                  demo_key_def base_state_def empty_record_def created_record_def)
  have u: "OAuth2ClientStatus.ClientID (OAuth2Client.Status demo_client) = None"
    by (simp add: demo_client_def)
  have n: "newRequest failing_store_env ?st0 ''POST'' [] (Some (ToOAuth2ClientJSON demo_client))
             = (Inr ?R, ?st0)"
    by (simp add: newRequest_def failing_store_env_def fixture_env_def response_def
                  demo_client_def demo_key_def base_state_def empty_record_def
                  created_record_def library_defs)
  have d: "HTTPClient_Do failing_store_env (trace ?st0) ?R = Inr ?resp"
    by (simp add: failing_store_env_def fixture_env_def response_def demo_client_def
                  demo_key_def base_state_def empty_record_def created_record_def)
  have c: "StatusCode ?resp = 201" by (simp add: response_def)
  have b: "Response.Body ?resp = JsonObject created_record" by (simp add: response_def)
  have s: "OAuth2ClientJSON.Secret created_record = Some ''s3cr3t''"
    by (simp add: created_record_def empty_record_def)
  have f: "Client_Create failing_store_env (trace ?st0 @ [Do ?R])
           \<lparr> apiv1_Secret.Name = OAuth2Client.Name demo_client,
             apiv1_Secret.Namespace = OAuth2Client.Namespace demo_client,
             Data = [''client_secret'' \<mapsto> ''s3cr3t''] \<rparr>
            = Some (ApiError ''secrets demo already exists'')"
    by (simp add: failing_store_env_def fixture_env_def)
  from C7_secret_persistence_fails[OF n d c b s f] g u
  have "Reconcile failing_store_env base_state demo_key =
          (Some (ApiError ''secrets demo already exists''),
           ?st0\<lparr>trace := trace base_state @
             [Get demo_key, Do ?R,
              Create \<lparr> apiv1_Secret.Name = OAuth2Client.Name demo_client,
                       apiv1_Secret.Namespace = OAuth2Client.Namespace demo_client,
                       Data = [''client_secret'' \<mapsto> ''s3cr3t''] \<rparr>]\<rparr>)"
    by blast
  with g d f t t0 nm ns show ?thesis by simp
qed

section \<open>Registered resources\<close>

lemma getOAuth2Client_no_writes:
  "filter is_Create_call (trace (snd (getOAuth2Client e st ident))) = filter is_Create_call (trace st)
   \<and> filter is_secret_creation (trace (snd (getOAuth2Client e st ident)))
       = filter is_secret_creation (trace st)
   \<and> filter is_status_update (trace (snd (getOAuth2Client e st ident)))
       = filter is_status_update (trace st)"
proof -
  from getOAuth2Client_trace[of e st ident]
  consider (same) "trace (snd (getOAuth2Client e st ident)) = trace st"
    | (sent) req st1 where "newRequest e st ''GET'' ident None = (Inr req, st1)"
        and "snd (getOAuth2Client e st ident) = st1\<lparr>trace := trace st @ [Do req]\<rparr>"
    by blast
  then show ?thesis
  proof cases
    case same
    then show ?thesis by simp
  next
    case sent
    have "Method req = ''GET''"
      using newRequest_Inr(2)[OF sent(1)] by simp
    with sent(2) show ?thesis by simp
  qed
qed





section \<open>Registration of a resource that has an identifier\<close>

text \<open>
  C3 as stated fails: the resource carries the identifier \<^verbatim>\<open>old-id\<close>, the registry
  answers its lookup with 404 and the body \<^verbatim>\<open>{}\<close>; \<open>Reconcile\<close> then sends a POST,
  creates a secret and writes the identifier \<^verbatim>\<open>abc123\<close> of the answer into the
  status.
\<close>

theorem C3_lost_record_is_registered_again:
  "OAuth2ClientStatus.ClientID (OAuth2Client.Status registered_client) = Some ''old-id''
   \<and> Client_Get lost_env [] demo_key = Inr registered_client
   \<and> fst (getOAuth2Client lost_env (base_state\<lparr>trace := [Get demo_key]\<rparr>) ''old-id'')
       = (None, False, None)
   \<and> Reconcile lost_env base_state demo_key =
        (None,
         \<lparr> HydraURL = \<lparr> Scheme = ''http'', Host = ''hydra'', Path = ''/clients/old-id'' \<rparr>,
           trace =
             [Get demo_key,
              Do \<lparr> Method = ''GET'', URL = ''http://hydra/clients/old-id'',
                   Header = [''Accept'' \<mapsto> ''application/json''], Request.Body = None \<rparr>,
              Do \<lparr> Method = ''POST'', URL = ''http://hydra/clients/old-id'',
                   Header = [''Content-Type'' \<mapsto> ''application/json'',
                             ''Accept'' \<mapsto> ''application/json''],
                   Request.Body = Some (encode_JSON (ToOAuth2ClientJSON registered_client)) \<rparr>,
              Create \<lparr> apiv1_Secret.Name = ''demo'', apiv1_Secret.Namespace = ''default'',
                       Data = [''client_secret'' \<mapsto> ''s3cr3t''] \<rparr>,
              StatusUpdate (registered_client\<lparr>OAuth2Client.Status :=
                \<lparr> OAuth2ClientStatus.Secret = Some ''demo'',
                  OAuth2ClientStatus.ClientID = Some ''abc123'' \<rparr>\<rparr>)] \<rparr>)
   \<and> length (filter is_Create_call (trace (snd (Reconcile lost_env base_state demo_key)))) = 1"
proof -
  have 1: "OAuth2ClientStatus.ClientID (OAuth2Client.Status registered_client) = Some ''old-id''"
    by (simp add: lost_env_def fixture_env_def response_def demo_client_def
                  registered_client_def demo_key_def base_state_def empty_record_def
                  created_record_def)
  have 2: "Client_Get lost_env [] demo_key = Inr registered_client"
    by (simp add: lost_env_def fixture_env_def response_def demo_client_def
                  registered_client_def demo_key_def base_state_def empty_record_def
                  created_record_def)
  have 3: "getOAuth2Client lost_env (base_state\<lparr>trace := [Get demo_key]\<rparr>) ''old-id''
       = ((None, False, None),
          \<lparr> HydraURL = \<lparr> Scheme = ''http'', Host = ''hydra'', Path = ''/clients/old-id'' \<rparr>,
            trace = [Get demo_key,
              Do \<lparr> Method = ''GET'', URL = ''http://hydra/clients/old-id'',
                   Header = [''Accept'' \<mapsto> ''application/json''], Request.Body = None \<rparr>] \<rparr>)"
    by (simp add: getOAuth2Client_def do_def newRequest_def lost_env_def fixture_env_def
                  response_def demo_client_def registered_client_def demo_key_def base_state_def
                  empty_record_def created_record_def library_defs)
  have 4: "registerOAuth2Client lost_env
             \<lparr> HydraURL = \<lparr> Scheme = ''http'', Host = ''hydra'', Path = ''/clients/old-id'' \<rparr>,
               trace = [Get demo_key,
                 Do \<lparr> Method = ''GET'', URL = ''http://hydra/clients/old-id'',
                   Header = [''Accept'' \<mapsto> ''application/json''], Request.Body = None \<rparr>] \<rparr>
             registered_client
       = ((None, registered_client\<lparr>OAuth2Client.Status :=
                \<lparr> OAuth2ClientStatus.Secret = Some ''demo'',
                  OAuth2ClientStatus.ClientID = Some ''abc123'' \<rparr>\<rparr>),
          \<lparr> HydraURL = \<lparr> Scheme = ''http'', Host = ''hydra'', Path = ''/clients/old-id'' \<rparr>,
           trace =
             [Get demo_key,
              Do \<lparr> Method = ''GET'', URL = ''http://hydra/clients/old-id'',
                   Header = [''Accept'' \<mapsto> ''application/json''], Request.Body = None \<rparr>,
              Do \<lparr> Method = ''POST'', URL = ''http://hydra/clients/old-id'',
                   Header = [''Content-Type'' \<mapsto> ''application/json'',
                             ''Accept'' \<mapsto> ''application/json''],
                   Request.Body = Some (encode_JSON (ToOAuth2ClientJSON registered_client)) \<rparr>,
              Create \<lparr> apiv1_Secret.Name = ''demo'', apiv1_Secret.Namespace = ''default'',
                       Data = [''client_secret'' \<mapsto> ''s3cr3t''] \<rparr>,
              StatusUpdate (registered_client\<lparr>OAuth2Client.Status :=
                \<lparr> OAuth2ClientStatus.Secret = Some ''demo'',
                  OAuth2ClientStatus.ClientID = Some ''abc123'' \<rparr>\<rparr>)] \<rparr>)"
    by (simp add: registerOAuth2Client_def postOAuth2Client_def do_def newRequest_def
                  lost_env_def fixture_env_def response_def demo_client_def registered_client_def demo_key_def base_state_def empty_record_def created_record_def library_defs)
  have 5: "Reconcile lost_env base_state demo_key =
        (None,
         \<lparr> HydraURL = \<lparr> Scheme = ''http'', Host = ''hydra'', Path = ''/clients/old-id'' \<rparr>,
           trace =
             [Get demo_key,
              Do \<lparr> Method = ''GET'', URL = ''http://hydra/clients/old-id'',
                   Header = [''Accept'' \<mapsto> ''application/json''], Request.Body = None \<rparr>,
              Do \<lparr> Method = ''POST'', URL = ''http://hydra/clients/old-id'',
                   Header = [''Content-Type'' \<mapsto> ''application/json'',
                             ''Accept'' \<mapsto> ''application/json''],
                   Request.Body = Some (encode_JSON (ToOAuth2ClientJSON registered_client)) \<rparr>,
              Create \<lparr> apiv1_Secret.Name = ''demo'', apiv1_Secret.Namespace = ''default'',
                       Data = [''client_secret'' \<mapsto> ''s3cr3t''] \<rparr>,
              StatusUpdate (registered_client\<lparr>OAuth2Client.Status :=
                \<lparr> OAuth2ClientStatus.Secret = Some ''demo'',
                  OAuth2ClientStatus.ClientID = Some ''abc123'' \<rparr>\<rparr>)] \<rparr>)"
    using Reconcile_registered[of lost_env base_state demo_key registered_client "''old-id''"
            None False None, OF _ 1] 2 3 4
    by (simp add: base_state_def)
  from 1 2 3 5 show ?thesis by simp
qed

text \<open>
  C3, amended. A resource whose status carries an identifier is loaded and that
  identifier is looked up. When the lookup fails or finds the record, \<open>Reconcile\<close>
  returns the lookup's error or success and makes no Create call, creates no secret
  and updates no status: the identifier stays. When the lookup returns found = false
  without error, \<open>Reconcile\<close> runs the registration again; if the registry answers the
  POST with 201 and a record that holds a secret, and the store accepts the secret,
  the status is updated to the identifier of that record.
\<close>

theorem C3_identifier_rewritten_only_after_not_found:
  assumes "Client_Get e (trace st) key = Inr client"
    and "OAuth2ClientStatus.ClientID (OAuth2Client.Status client) = Some ident"
    and "getOAuth2Client e (st\<lparr>trace := trace st @ [Get key]\<rparr>) ident = ((j, found, err), st1)"
  shows "(err \<noteq> None \<or> found \<longrightarrow>
            Reconcile e st key = (err, st1)
            \<and> filter is_Create_call (trace st1) = filter is_Create_call (trace st)
            \<and> filter is_secret_creation (trace st1) = filter is_secret_creation (trace st)
            \<and> filter is_status_update (trace st1) = filter is_status_update (trace st))
       \<and> (err = None \<and> \<not> found \<longrightarrow>
            Reconcile e st key =
              (fst (fst (registerOAuth2Client e st1 client)), snd (registerOAuth2Client e st1 client))
            \<and> (\<forall>req st2 resp cr sec.
                  newRequest e st1 ''POST'' [] (Some (ToOAuth2ClientJSON client)) = (Inr req, st2)
                  \<and> HTTPClient_Do e (trace st1) req = Inr resp
                  \<and> StatusCode resp = 201
                  \<and> Response.Body resp = JsonObject cr
                  \<and> OAuth2ClientJSON.Secret cr = Some sec
                  \<and> Client_Create e (trace st1 @ [Do req])
                       \<lparr> apiv1_Secret.Name = OAuth2Client.Name client,
                         apiv1_Secret.Namespace = OAuth2Client.Namespace client,
                         Data = [''client_secret'' \<mapsto> sec] \<rparr> = None
                \<longrightarrow> snd (Reconcile e st key) =
                      st2\<lparr>trace := trace st1 @
                        [Do req,
                         Create \<lparr> apiv1_Secret.Name = OAuth2Client.Name client,
                                  apiv1_Secret.Namespace = OAuth2Client.Namespace client,
                                  Data = [''client_secret'' \<mapsto> sec] \<rparr>,
                         StatusUpdate (client\<lparr>OAuth2Client.Status :=
                           \<lparr> OAuth2ClientStatus.Secret = Some (OAuth2Client.Name client),
                             OAuth2ClientStatus.ClientID = OAuth2ClientJSON.ClientID cr \<rparr>\<rparr>)]\<rparr>))"
proof -
  let ?st0 = "st\<lparr>trace := trace st @ [Get key]\<rparr>"
  note R = Reconcile_registered[OF assms]
  have s1: "snd (getOAuth2Client e ?st0 ident) = st1"
    using assms(3) by simp
  have w: "filter is_Create_call (trace st1) = filter is_Create_call (trace st)
         \<and> filter is_secret_creation (trace st1) = filter is_secret_creation (trace st)
         \<and> filter is_status_update (trace st1) = filter is_status_update (trace st)"
    using getOAuth2Client_no_writes[of e ?st0 ident] s1 by simp
  have A: "err \<noteq> None \<or> found \<longrightarrow>
            Reconcile e st key = (err, st1)
            \<and> filter is_Create_call (trace st1) = filter is_Create_call (trace st)
            \<and> filter is_secret_creation (trace st1) = filter is_secret_creation (trace st)
            \<and> filter is_status_update (trace st1) = filter is_status_update (trace st)"
    using R w by auto
  have B1: "err = None \<and> \<not> found \<longrightarrow>
            Reconcile e st key =
              (fst (fst (registerOAuth2Client e st1 client)), snd (registerOAuth2Client e st1 client))"
    using R by simp
  have B2: "err = None \<and> \<not> found \<longrightarrow>
            (\<forall>req st2 resp cr sec.
                  newRequest e st1 ''POST'' [] (Some (ToOAuth2ClientJSON client)) = (Inr req, st2)
                  \<and> HTTPClient_Do e (trace st1) req = Inr resp
                  \<and> StatusCode resp = 201
                  \<and> Response.Body resp = JsonObject cr
                  \<and> OAuth2ClientJSON.Secret cr = Some sec
                  \<and> Client_Create e (trace st1 @ [Do req])
                       \<lparr> apiv1_Secret.Name = OAuth2Client.Name client,
                         apiv1_Secret.Namespace = OAuth2Client.Namespace client,
                         Data = [''client_secret'' \<mapsto> sec] \<rparr> = None
                \<longrightarrow> snd (Reconcile e st key) =
                      st2\<lparr>trace := trace st1 @
                        [Do req,
                         Create \<lparr> apiv1_Secret.Name = OAuth2Client.Name client,
                                  apiv1_Secret.Namespace = OAuth2Client.Namespace client,
                                  Data = [''client_secret'' \<mapsto> sec] \<rparr>,
                         StatusUpdate (client\<lparr>OAuth2Client.Status :=
                           \<lparr> OAuth2ClientStatus.Secret = Some (OAuth2Client.Name client),
                             OAuth2ClientStatus.ClientID = OAuth2ClientJSON.ClientID cr \<rparr>\<rparr>)]\<rparr>)"
  proof (intro impI allI, elim conjE)
    fix req st2 resp cr sec
    assume nf: "err = None" "\<not> found"
      and n: "newRequest e st1 ''POST'' [] (Some (ToOAuth2ClientJSON client)) = (Inr req, st2)"
      and d: "HTTPClient_Do e (trace st1) req = Inr resp"
      and c: "StatusCode resp = 201"
      and b: "Response.Body resp = JsonObject cr"
      and s: "OAuth2ClientJSON.Secret cr = Some sec"
      and a: "Client_Create e (trace st1 @ [Do req])
                       \<lparr> apiv1_Secret.Name = OAuth2Client.Name client,
                         apiv1_Secret.Namespace = OAuth2Client.Namespace client,
                         Data = [''client_secret'' \<mapsto> sec] \<rparr> = None"
    show "snd (Reconcile e st key) =
                      st2\<lparr>trace := trace st1 @
                        [Do req,
                         Create \<lparr> apiv1_Secret.Name = OAuth2Client.Name client,
                                  apiv1_Secret.Namespace = OAuth2Client.Namespace client,
                                  Data = [''client_secret'' \<mapsto> sec] \<rparr>,
                         StatusUpdate (client\<lparr>OAuth2Client.Status :=
                           \<lparr> OAuth2ClientStatus.Secret = Some (OAuth2Client.Name client),
                             OAuth2ClientStatus.ClientID = OAuth2ClientJSON.ClientID cr \<rparr>\<rparr>)]\<rparr>"
      using registerOAuth2Client_accepted[OF n d c b s] a R nf by simp
  qed
  from A B1 B2 show ?thesis by blast
qed

theorem C3_identifier_rewritten_only_after_not_found_witness:
  "Client_Get lost_env (trace base_state) demo_key = Inr registered_client
   \<and> OAuth2ClientStatus.ClientID (OAuth2Client.Status registered_client) = Some ''old-id''
   \<and> getOAuth2Client lost_env (base_state\<lparr>trace := trace base_state @ [Get demo_key]\<rparr>) ''old-id''
       = ((None, False, None),
          \<lparr> HydraURL = \<lparr> Scheme = ''http'', Host = ''hydra'', Path = ''/clients/old-id'' \<rparr>,
            trace = [Get demo_key,
              Do \<lparr> Method = ''GET'', URL = ''http://hydra/clients/old-id'',
                   Header = [''Accept'' \<mapsto> ''application/json''], Request.Body = None \<rparr>] \<rparr>)
   \<and> HTTPClient_Do lost_env
         [Get demo_key,
          Do \<lparr> Method = ''GET'', URL = ''http://hydra/clients/old-id'',
               Header = [''Accept'' \<mapsto> ''application/json''], Request.Body = None \<rparr>]
         \<lparr> Method = ''POST'', URL = ''http://hydra/clients/old-id'',
           Header = [''Content-Type'' \<mapsto> ''application/json'', ''Accept'' \<mapsto> ''application/json''],
           Request.Body = Some (encode_JSON (ToOAuth2ClientJSON registered_client)) \<rparr>
       = Inr (response 201 ''201 Created'' (JsonObject created_record))
   \<and> snd (Reconcile lost_env base_state demo_key) =
         \<lparr> HydraURL = \<lparr> Scheme = ''http'', Host = ''hydra'', Path = ''/clients/old-id'' \<rparr>,
           trace =
             [Get demo_key,
              Do \<lparr> Method = ''GET'', URL = ''http://hydra/clients/old-id'',
                   Header = [''Accept'' \<mapsto> ''application/json''], Request.Body = None \<rparr>,
              Do \<lparr> Method = ''POST'', URL = ''http://hydra/clients/old-id'',
                   Header = [''Content-Type'' \<mapsto> ''application/json'',
                             ''Accept'' \<mapsto> ''application/json''],
                   Request.Body = Some (encode_JSON (ToOAuth2ClientJSON registered_client)) \<rparr>,
              Create \<lparr> apiv1_Secret.Name = ''demo'', apiv1_Secret.Namespace = ''default'',
                       Data = [''client_secret'' \<mapsto> ''s3cr3t''] \<rparr>,
              StatusUpdate (registered_client\<lparr>OAuth2Client.Status :=
                \<lparr> OAuth2ClientStatus.Secret = Some ''demo'',
                  OAuth2ClientStatus.ClientID = Some ''abc123'' \<rparr>\<rparr>)] \<rparr>"
proof -
  let ?G = "\<lparr> Method = ''GET'', URL = ''http://hydra/clients/old-id'',
               Header = [''Accept'' \<mapsto> ''application/json''], Request.Body = None \<rparr>"
  let ?P = "\<lparr> Method = ''POST'', URL = ''http://hydra/clients/old-id'',
               Header = [''Content-Type'' \<mapsto> ''application/json'', ''Accept'' \<mapsto> ''application/json''],
               Request.Body = Some (encode_JSON (ToOAuth2ClientJSON registered_client)) \<rparr>"
  let ?st1 = "\<lparr> HydraURL = \<lparr> Scheme = ''http'', Host = ''hydra'', Path = ''/clients/old-id'' \<rparr>,
                 trace = [Get demo_key, Do ?G] \<rparr>"
  let ?resp = "response 201 ''201 Created'' (JsonObject created_record)"
  have nm: "OAuth2Client.Name registered_client = ''demo''"
    and ns: "OAuth2Client.Namespace registered_client = ''default''"
    by (simp_all add: registered_client_def demo_client_def)
  have g: "Client_Get lost_env (trace base_state) demo_key = Inr registered_client"
    by (simp add: lost_env_def fixture_env_def response_def demo_client_def
                  registered_client_def demo_key_def base_state_def empty_record_def
                  created_record_def)
  have i: "OAuth2ClientStatus.ClientID (OAuth2Client.Status registered_client) = Some ''old-id''"
    by (simp add: lost_env_def fixture_env_def response_def demo_client_def
                  registered_client_def demo_key_def base_state_def empty_record_def
                  created_record_def)
  have l: "getOAuth2Client lost_env (base_state\<lparr>trace := trace base_state @ [Get demo_key]\<rparr>) ''old-id''
       = ((None, False, None), ?st1)"
    by (simp add: getOAuth2Client_def do_def newRequest_def lost_env_def fixture_env_def
                  response_def demo_client_def registered_client_def demo_key_def base_state_def
                  empty_record_def created_record_def library_defs)
  have n: "newRequest lost_env ?st1 ''POST'' [] (Some (ToOAuth2ClientJSON registered_client))
             = (Inr ?P, ?st1)"
    by (simp add: newRequest_def lost_env_def fixture_env_def response_def demo_client_def
                  registered_client_def demo_key_def base_state_def empty_record_def
                  created_record_def library_defs)
  have d: "HTTPClient_Do lost_env (trace ?st1) ?P = Inr ?resp"
    by (simp add: lost_env_def fixture_env_def response_def demo_client_def
                  registered_client_def demo_key_def base_state_def empty_record_def
                  created_record_def)
  have c: "StatusCode ?resp = 201" by (simp add: response_def)
  have b: "Response.Body ?resp = JsonObject created_record" by (simp add: response_def)
  have s: "OAuth2ClientJSON.Secret created_record = Some ''s3cr3t''"
    by (simp add: created_record_def empty_record_def)
  have ci: "OAuth2ClientJSON.ClientID created_record = Some ''abc123''"
    by (simp add: created_record_def empty_record_def)
  have a: "Client_Create lost_env (trace ?st1 @ [Do ?P])
             \<lparr> apiv1_Secret.Name = OAuth2Client.Name registered_client,
               apiv1_Secret.Namespace = OAuth2Client.Namespace registered_client,
               Data = [''client_secret'' \<mapsto> ''s3cr3t''] \<rparr> = None"
    by (simp add: lost_env_def fixture_env_def)
  from C3_identifier_rewritten_only_after_not_found[OF g i l] n d c b s a
  have "snd (Reconcile lost_env base_state demo_key) =
          ?st1\<lparr>trace := trace ?st1 @
            [Do ?P,
             Create \<lparr> apiv1_Secret.Name = OAuth2Client.Name registered_client,
                      apiv1_Secret.Namespace = OAuth2Client.Namespace registered_client,
                      Data = [''client_secret'' \<mapsto> ''s3cr3t''] \<rparr>,
             StatusUpdate (registered_client\<lparr>OAuth2Client.Status :=
               \<lparr> OAuth2ClientStatus.Secret = Some (OAuth2Client.Name registered_client),
                 OAuth2ClientStatus.ClientID = OAuth2ClientJSON.ClientID created_record \<rparr>\<rparr>)]\<rparr>"
    by blast
  with g i l d nm ns ci show ?thesis by simp
qed

section \<open>The base URL\<close>

text \<open>
  C8 fails on the code. \<open>newRequest\<close> assigns the joined path to the path of
  \<^verbatim>\<open>r.HydraURL\<close>, so a request changes the base of every later one: after the
  lookup of \<^verbatim>\<open>abc123\<close> from the base \<^verbatim>\<open>http://hydra/clients\<close> the base path is
  \<^verbatim>\<open>/clients/abc123\<close>, a creation request then goes to
  \<^verbatim>\<open>http://hydra/clients/abc123\<close>, and a second lookup of the same identifier to
  \<^verbatim>\<open>http://hydra/clients/abc123/abc123\<close>.
\<close>

theorem C8_base_url_is_mutated:
  "Path (HydraURL base_state) = ''/clients''
   \<and> Path (HydraURL (snd (newRequest accepting_env base_state ''GET'' ''abc123'' None)))
       = ''/clients/abc123''
   \<and> fst (newRequest accepting_env
            (snd (newRequest accepting_env base_state ''GET'' ''abc123'' None))
            ''POST'' [] (Some (ToOAuth2ClientJSON demo_client)))
       = Inr \<lparr> Method = ''POST'', URL = ''http://hydra/clients/abc123'',
               Header = [''Content-Type'' \<mapsto> ''application/json'', ''Accept'' \<mapsto> ''application/json''],
               Request.Body = Some (encode_JSON (ToOAuth2ClientJSON demo_client)) \<rparr>
   \<and> fst (newRequest accepting_env base_state
            ''POST'' [] (Some (ToOAuth2ClientJSON demo_client)))
       = Inr \<lparr> Method = ''POST'', URL = ''http://hydra/clients'',
               Header = [''Content-Type'' \<mapsto> ''application/json'', ''Accept'' \<mapsto> ''application/json''],
               Request.Body = Some (encode_JSON (ToOAuth2ClientJSON demo_client)) \<rparr>
   \<and> fst (newRequest accepting_env
            (snd (newRequest accepting_env base_state ''GET'' ''abc123'' None))
            ''GET'' ''abc123'' None)
       = Inr \<lparr> Method = ''GET'', URL = ''http://hydra/clients/abc123/abc123'',
               Header = [''Accept'' \<mapsto> ''application/json''], Request.Body = None \<rparr>"
  by (simp add: newRequest_def accepting_env_def fixture_env_def response_def demo_client_def
                base_state_def empty_record_def created_record_def library_defs)

end
